theory Spec2Isabelle
  imports Complex_Main "HOL-Library.Log_Nat"
begin

section \<open>Python values used by app.py\<close>

text \<open>
  Strings are byte strings (\<open>string\<close>); the case conversions of \<open>str\<close> act on the
  ASCII letters. A price is a Python float, a binary64 value with the rounding, the
  infinities and the NaN of its arithmetic (\<open>pyfloat\<close> below). The quality score of
  \<open>analyze_quality\<close> is the exact sum of its increments, a rational number.
\<close>

definition lower_char :: "char \<Rightarrow> char" where
  "lower_char c =
     (let n = (of_char c :: nat) in if 65 \<le> n \<and> n \<le> 90 then char_of (n + 32) else c)"

definition upper_char :: "char \<Rightarrow> char" where
  "upper_char c =
     (let n = (of_char c :: nat) in if 97 \<le> n \<and> n \<le> 122 then char_of (n - 32) else c)"

definition lower :: "string \<Rightarrow> string" where
  "lower s = map lower_char s"

definition upper :: "string \<Rightarrow> string" where
  "upper s = map upper_char s"

text \<open>\<open>s.capitalize()\<close>: the first character in upper case, the rest in lower case.\<close>

definition capitalize :: "string \<Rightarrow> string" where
  "capitalize s = (case s of [] \<Rightarrow> [] | c # cs \<Rightarrow> upper_char c # lower cs)"

text \<open>\<open>s.strip()\<close> removes the white space at both ends.\<close>

definition is_space :: "char \<Rightarrow> bool" where
  "is_space c = (let n = (of_char c :: nat) in (9 \<le> n \<and> n \<le> 13) \<or> (28 \<le> n \<and> n \<le> 32))"

definition strip :: "string \<Rightarrow> string" where
  "strip s = rev (dropWhile is_space (rev (dropWhile is_space s)))"

text \<open>
  \<open>s.replace(old, new)\<close> for a non-empty \<open>old\<close>: the occurrences are replaced from
  the left and do not overlap; \<open>skip\<close> counts the characters of a replaced occurrence
  that are still to be dropped.
\<close>

fun replace_from :: "string \<Rightarrow> string \<Rightarrow> nat \<Rightarrow> string \<Rightarrow> string" where
  "replace_from old new skip [] = []"
| "replace_from old new skip (c # cs) =
     (if 0 < skip then replace_from old new (skip - 1) cs
      else if take (length old) (c # cs) = old
           then new @ replace_from old new (length old - 1) cs
      else c # replace_from old new 0 cs)"

definition replace :: "string \<Rightarrow> string \<Rightarrow> string \<Rightarrow> string" where
  "replace s old new = replace_from old new 0 s"

text \<open>\<open>str(n)\<close> for a natural number.\<close>

function str_nat :: "nat \<Rightarrow> string" where
  "str_nat n =
     (if n < 10 then [char_of (48 + n)] else str_nat (n div 10) @ [char_of (48 + n mod 10)])"
  by pat_completeness auto
termination
  by (relation "measure id") auto

declare str_nat.simps [simp del]

text \<open>\<open>sub in text\<close>: \<open>sub\<close> occurs in \<open>text\<close> as a contiguous run of characters.\<close>

fun contains :: "string \<Rightarrow> string \<Rightarrow> bool" where
  "contains sub [] = (sub = [])"
| "contains sub (c # cs) = (take (length sub) (c # cs) = sub \<or> contains sub cs)"

subsection \<open>Python floats\<close>

text \<open>
  A Python float is an IEEE 754 binary64 value: a rational \<open>m * 2 ^ e\<close> with
  \<open>\<bar>m\<bar> < 2 ^ 53\<close> and \<open>e \<ge> -1074\<close>, one of the two infinities, or NaN. The two
  zeros are one value here, as they are for Python's \<open>==\<close> and \<open><=\<close>.
\<close>

datatype pyfloat = Finite rat | PosInf | NegInf | NaN

text \<open>Rounding to the nearest integer, a tie going to the even neighbour.\<close>

definition round_half_even :: "rat \<Rightarrow> int" where
  "round_half_even x =
     (let f = \<lfloor>x\<rfloor>; d = x - of_int f
      in if d < 1/2 then f else if 1/2 < d then f + 1 else if even f then f else f + 1)"

text \<open>\<open>ilog2 y\<close> is the integer \<open>k\<close> with \<open>2 ^ k \<le> y < 2 ^ (k + 1)\<close>, for \<open>y > 0\<close>.\<close>

definition ilog2 :: "rat \<Rightarrow> int" where
  "ilog2 y =
     (let e0 = bitlen (fst (quotient_of y)) - bitlen (snd (quotient_of y))
      in if y < 2 powi e0 then e0 - 1 else e0)"

text \<open>
  The exponent of the last place of the binary64 values around \<open>y\<close>: 53 significant
  bits, and the fixed exponent -1074 in the subnormal range.
\<close>

definition double_exponent :: "rat \<Rightarrow> int" where
  "double_exponent y = max (ilog2 \<bar>y\<bar> - 52) (- 1074)"

text \<open>
  The rounding of every float operation: the nearest multiple of
  \<open>2 ^ double_exponent y\<close>, a tie going to the even significand; a result of
  magnitude \<open>2 ^ 1024\<close> or more overflows to an infinity.
\<close>

definition round_to_double :: "rat \<Rightarrow> rat" where
  "round_to_double y =
     (if y = 0 then 0
      else of_int (round_half_even (y / 2 powi double_exponent y)) * 2 powi double_exponent y)"

definition fl :: "rat \<Rightarrow> pyfloat" where
  "fl y =
     (let r = round_to_double y
      in if 2 ^ 1024 \<le> r then PosInf else if r \<le> - (2 ^ 1024) then NegInf else Finite r)"

text \<open>\<open>x + y\<close> and \<open>x * y\<close> on floats.\<close>

fun fadd :: "pyfloat \<Rightarrow> pyfloat \<Rightarrow> pyfloat" where
  "fadd (Finite a) (Finite b) = fl (a + b)"
| "fadd NaN y = NaN"
| "fadd x NaN = NaN"
| "fadd PosInf NegInf = NaN"
| "fadd NegInf PosInf = NaN"
| "fadd PosInf y = PosInf"
| "fadd NegInf y = NegInf"
| "fadd x PosInf = PosInf"
| "fadd x NegInf = NegInf"

fun fmul :: "pyfloat \<Rightarrow> pyfloat \<Rightarrow> pyfloat" where
  "fmul (Finite a) (Finite b) = fl (a * b)"
| "fmul NaN y = NaN"
| "fmul x NaN = NaN"
| "fmul PosInf (Finite b) = (if b = 0 then NaN else if 0 < b then PosInf else NegInf)"
| "fmul NegInf (Finite b) = (if b = 0 then NaN else if 0 < b then NegInf else PosInf)"
| "fmul (Finite a) PosInf = (if a = 0 then NaN else if 0 < a then PosInf else NegInf)"
| "fmul (Finite a) NegInf = (if a = 0 then NaN else if 0 < a then NegInf else PosInf)"
| "fmul PosInf PosInf = PosInf"
| "fmul NegInf NegInf = PosInf"
| "fmul PosInf NegInf = NegInf"
| "fmul NegInf PosInf = NegInf"

text \<open>\<open>x <= y\<close> and \<open>x > y\<close> on floats; every comparison with NaN is false.\<close>

fun fle :: "pyfloat \<Rightarrow> pyfloat \<Rightarrow> bool" where
  "fle (Finite a) (Finite b) = (a \<le> b)"
| "fle NaN y = False"
| "fle x NaN = False"
| "fle NegInf y = True"
| "fle x PosInf = True"
| "fle PosInf y = False"
| "fle x NegInf = False"

fun fgt :: "pyfloat \<Rightarrow> pyfloat \<Rightarrow> bool" where
  "fgt (Finite a) (Finite b) = (b < a)"
| "fgt NaN y = False"
| "fgt x NaN = False"
| "fgt PosInf PosInf = False"
| "fgt PosInf y = True"
| "fgt x NegInf = (x \<noteq> NegInf)"
| "fgt NegInf y = False"
| "fgt x PosInf = False"

text \<open>
  \<open>round(x, 2)\<close>: CPython rounds the exact value of the float to two decimals, a tie
  going to the even neighbour, and returns the float nearest to that decimal; an
  infinity and NaN are returned as they are.
\<close>

fun py_round2 :: "pyfloat \<Rightarrow> pyfloat" where
  "py_round2 (Finite x) = fl (of_int (round_half_even (x * 100)) / 100)"
| "py_round2 PosInf = PosInf"
| "py_round2 NegInf = NegInf"
| "py_round2 NaN = NaN"

subsection \<open>JSON values\<close>

text \<open>
  The values of a decoded JSON body and of the documents' untyped fields; \<open>JNull\<close>
  is Python's \<open>None\<close>. A missing key of a dictionary reads as \<open>None\<close> with \<open>get\<close>.
\<close>

datatype json =
    JNull
  | JBool bool
  | JInt int
  | JFloat rat
  | JStr string
  | JList "json list"
  | JDict "(string \<times> json) list"

fun truthy :: "json \<Rightarrow> bool" where
  "truthy JNull = False"
| "truthy (JBool b) = b"
| "truthy (JInt n) = (n \<noteq> 0)"
| "truthy (JFloat r) = (r \<noteq> 0)"
| "truthy (JStr s) = (s \<noteq> [])"
| "truthy (JList xs) = (xs \<noteq> [])"
| "truthy (JDict kvs) = (kvs \<noteq> [])"

definition dict_get :: "(string \<times> json) list \<Rightarrow> string \<Rightarrow> json" where
  "dict_get d k = (case map_of d k of None \<Rightarrow> JNull | Some v \<Rightarrow> v)"

definition dict_get_default :: "(string \<times> json) list \<Rightarrow> string \<Rightarrow> json \<Rightarrow> json" where
  "dict_get_default d k dflt = (case map_of d k of None \<Rightarrow> dflt | Some v \<Rightarrow> v)"

subsection \<open>Exceptions, messages and responses\<close>

datatype exn =
    SignatureVerificationError
  | Exception string
  | AttributeError
  | TypeError
  | ValueError
  | InvalidId
  | BadRequest
  | GatewayError string

text \<open>
  A flashed message or the text of a JSON reply: a literal, or one of the templates of
  app.py with its argument (\<open>str(e)\<close> of a caught exception, the refunded amount).
\<close>

datatype message =
    Text string
  | StrOf exn
  | UploadError exn
  | RefundFailed exn
  | RefundProcessed int

datatype payload = Failed message | Success json

text \<open>
  \<open>Json code body\<close> is \<open>jsonify(...)\<close> with its status code, \<open>Abort code\<close> the error
  page Flask sends when a handler raises (400 for a missing form field, 500 otherwise).
\<close>

datatype response =
    Json nat payload
  | Redirect string
  | Render string
  | Abort nat

datatype gateway_call =
    VerifySignature json json json
  | PaymentFetch json
  | PaymentRefund json int

subsection \<open>The document store\<close>

type_synonym oid = nat

type_synonym 'a collection = "(oid \<times> 'a) list"

definition by_id :: "oid \<Rightarrow> oid \<times> 'a \<Rightarrow> bool" where
  "by_id i = (\<lambda>(j, d). j = i)"

definition find_one :: "(oid \<times> 'a \<Rightarrow> bool) \<Rightarrow> 'a collection \<Rightarrow> (oid \<times> 'a) option" where
  "find_one q coll = find q coll"

fun update_one :: "(oid \<times> 'a \<Rightarrow> bool) \<Rightarrow> ('a \<Rightarrow> 'a) \<Rightarrow> 'a collection \<Rightarrow> 'a collection" where
  "update_one q f [] = []"
| "update_one q f (x # rest) =
     (if q x then (fst x, f (snd x)) # rest else x # update_one q f rest)"

fun delete_one :: "(oid \<times> 'a \<Rightarrow> bool) \<Rightarrow> 'a collection \<Rightarrow> 'a collection" where
  "delete_one q [] = []"
| "delete_one q (x # rest) = (if q x then rest else x # delete_one q rest)"

text \<open>
  \<open>insert_one\<close> gives the document an \<open>_id\<close> that no document of the collection
  carries, as the driver's generated ObjectIds do.
\<close>

definition new_id :: "'a collection \<Rightarrow> oid" where
  "new_id coll = Suc (foldr max (map fst coll) 0)"

definition insert_one :: "'a \<Rightarrow> 'a collection \<Rightarrow> 'a collection" where
  "insert_one doc coll = coll @ [(new_id coll, doc)]"

record user =
  u_name :: "string option"
  u_email :: string
  u_password :: string
  u_user_type :: string
  u_user_id :: "string option"
  u_created_at :: nat
  u_wallet :: int
  u_phone :: "string option"
  u_address :: "string option"
  u_bank_details :: "(string option \<times> string option \<times> string option \<times> string option) option"
  u_payment_methods :: "string option"

record product =
  p_name :: "string option"
  p_price :: pyfloat
  p_adjusted_price :: pyfloat
  p_category :: string
  p_description :: string
  p_address :: string
  p_image :: string
  p_owner :: "string option"
  p_owner_type :: "string option"
  p_quality_score :: rat
  p_user_quality :: string
  p_quantity :: "int option"
  p_created_at :: nat

record order =
  o_user :: "string option"
  o_product_id :: json
  o_product_name :: "string option"
  o_quantity :: int
  o_amount :: json
  o_payment_method :: string
  o_delivery_address :: json
  o_pincode :: json
  o_status :: string
  o_delivery_status :: string
  o_shipment_id :: json
  o_razorpay_payment_id :: json
  o_date :: nat
  o_refund_id :: "json option"
  o_refunded_at :: "nat option"

record database =
  users :: "user collection"
  products :: "product collection"
  orders :: "order collection"

subsection \<open>The world outside app.py\<close>

record session =
  s_user :: "string option"
  s_name :: "string option"
  s_user_type :: "string option"

text \<open>The order that \<open>verify_payment\<close> posts to Shiprocket (its varying fields).\<close>

record sr_order =
  sr_order_id :: "json \<times> nat"
  sr_order_date :: nat
  sr_billing_customer_name :: string
  sr_billing_address :: json
  sr_billing_pincode :: json
  sr_billing_email :: string
  sr_item_name :: "string option"
  sr_item_sku :: oid
  sr_item_units :: int
  sr_item_selling_price :: pyfloat
  sr_sub_total :: json
  sr_weight :: int

text \<open>
  The Razorpay client: \<open>verify_payment_signature\<close> returns (\<open>None\<close>) or raises,
  \<open>payment_fetch\<close> and \<open>payment_refund\<close> return the gateway's entity or raise.
\<close>

record client =
  verify_payment_signature :: "json \<Rightarrow> json \<Rightarrow> json \<Rightarrow> exn option"
  payment_fetch :: "json \<Rightarrow> exn + json"
  payment_refund :: "json \<Rightarrow> int \<Rightarrow> exn + json"

text \<open>
  What a request finds outside app.py: the module's globals (\<open>razorpay_client\<close>,
  \<open>shiprocket_token\<close>), whether \<open>ensure_db_connection\<close> obtains the database, and the
  library calls whose code is not the application's: bson's parsing of an ObjectId
  string, Python's \<open>int\<close> and \<open>float\<close> of a string, werkzeug's password hash, the
  random numbers, the clock, the upload of an image (the \<open>image_url\<close> it ends with) and
  Shiprocket's reply (the \<open>shipment_id\<close>, \<open>None\<close> when the call fails).
\<close>

record env =
  razorpay_client :: "client option"
  shiprocket_token :: "string option"
  shiprocket_create :: "sr_order \<Rightarrow> json"
  db_connected :: bool
  object_id_of_str :: "string \<Rightarrow> oid option"
  int_of_str :: "string \<Rightarrow> int option"
  float_of_str :: "string \<Rightarrow> pyfloat option"
  generate_password_hash :: "string \<Rightarrow> string"
  randint :: "nat \<Rightarrow> nat \<Rightarrow> nat"
  now :: nat
  save_image :: "string \<Rightarrow> string"

record outcome =
  response :: response
  flashed :: "(message \<times> string) list"
  store :: database
  gateway_calls :: "gateway_call list"

definition respond ::
  "response \<Rightarrow> (message \<times> string) list \<Rightarrow> database \<Rightarrow> gateway_call list \<Rightarrow> outcome" where
  "respond r msgs db calls = \<lparr>response = r, flashed = msgs, store = db, gateway_calls = calls\<rparr>"

definition ensure_db_connection :: "env \<Rightarrow> database \<Rightarrow> database option" where
  "ensure_db_connection env db = (if db_connected env then Some db else None)"

text \<open>\<open>int(v)\<close>.\<close>

definition py_int :: "env \<Rightarrow> json \<Rightarrow> exn + int" where
  "py_int env v =
     (case v of
        JNull \<Rightarrow> Inl TypeError
      | JBool b \<Rightarrow> Inr (if b then 1 else 0)
      | JInt n \<Rightarrow> Inr n
      | JFloat r \<Rightarrow> Inr (if 0 \<le> r then \<lfloor>r\<rfloor> else \<lceil>r\<rceil>)
      | JStr s \<Rightarrow> (case int_of_str env s of None \<Rightarrow> Inl ValueError | Some n \<Rightarrow> Inr n)
      | JList xs \<Rightarrow> Inl TypeError
      | JDict kvs \<Rightarrow> Inl TypeError)"

text \<open>
  \<open>ObjectId(v)\<close>: \<open>None\<close> makes bson generate a new id, which no stored document
  carries (\<open>Inr None\<close>); a string is parsed or raises InvalidId; other values raise
  TypeError.
\<close>

definition ObjectId :: "env \<Rightarrow> json \<Rightarrow> exn + oid option" where
  "ObjectId env v =
     (case v of
        JNull \<Rightarrow> Inr None
      | JStr s \<Rightarrow> (case object_id_of_str env s of None \<Rightarrow> Inl InvalidId | Some i \<Rightarrow> Inr (Some i))
      | JBool b \<Rightarrow> Inl TypeError
      | JInt n \<Rightarrow> Inl TypeError
      | JFloat r \<Rightarrow> Inl TypeError
      | JList xs \<Rightarrow> Inl TypeError
      | JDict kvs \<Rightarrow> Inl TypeError)"

text \<open>\<open>x.replace("ObjectId('", "").replace("')", "").strip()\<close>.\<close>

definition clean_id :: "string \<Rightarrow> string" where
  "clean_id x =
     strip (replace (replace x (''ObjectId('' @ [CHR 0x27]) '''') ([CHR 0x27] @ '')'') '''')"

section \<open>AI analysis logic (app.py, lines 128--145)\<close>

definition analyze_quality :: "string \<Rightarrow> string \<Rightarrow> string \<Rightarrow> 'a \<Rightarrow> rat" where
  "analyze_quality name description category price =
     (let score = 5/10;
          text = lower (name @ '' '' @ description @ '' '' @ category);
          score = (if contains ''organic'' text then score + 2/10 else score);
          score = (if contains ''premium'' text \<or> contains ''pure'' text
                   then score + 15/100 else score);
          score = (if contains ''grade a'' text then score + 1/10 else score)
      in min 1 score)"

text \<open>
  The literals \<open>0.05\<close>, \<open>0.8\<close>, \<open>0.5\<close> and \<open>0.02\<close> are the floats nearest to them;
  \<open>1 + gov_rate + bonus\<close> is two float additions and the product a float
  multiplication. \<open>float(base_price)\<close> is \<open>base_price\<close> itself, a float.
\<close>

definition compute_adjusted_price :: "pyfloat \<Rightarrow> pyfloat \<Rightarrow> pyfloat" where
  "compute_adjusted_price base_price quality_score =
     (let gov_rate = fl (5/100);
          bonus = (if fgt quality_score (fl (8/10)) then fl (5/100)
                   else if fgt quality_score (fl (5/10)) then fl (2/100) else Finite 0)
      in py_round2 (fmul base_price (fadd (fadd (Finite 1) gov_rate) bonus)))"

text \<open>
  The bonus of a score as the specification words it, an exact number: 0.05 above
  0.8, 0.02 above 0.5, and 0 otherwise, the comparisons being Python's.
\<close>

definition quality_bonus :: "pyfloat \<Rightarrow> rat" where
  "quality_bonus q =
     (if fgt q (fl (8/10)) then 5/100 else if fgt q (fl (5/10)) then 2/100 else 0)"

text \<open>The value of the float \<open>1 + gov_rate + bonus\<close> in each of the three tiers.\<close>

definition price_factor :: "pyfloat \<Rightarrow> rat" where
  "price_factor q =
     (if fgt q (fl (8/10)) then 2476979795053773 / 2251799813685248
      else if fgt q (fl (5/10)) then 4818851601286431 / 4503599627370496
      else 4728779608739021 / 4503599627370496)"

section \<open>Registration (app.py, lines 168--204)\<close>

record register_form =
  rf_name :: "string option"
  rf_email :: "string option"
  rf_password :: "string option"
  rf_user_type :: "string option"

text \<open>
  \<open>request.form["name"]\<close> of a missing field raises werkzeug's BadRequestKeyError
  (the reply 400); the attribute access on a \<open>None\<close> database raises AttributeError,
  which \<open>register\<close> does not catch (the reply 500).
\<close>

definition register :: "env \<Rightarrow> string \<Rightarrow> register_form \<Rightarrow> database \<Rightarrow> outcome" where
  "register env method form db =
     (if method = ''POST'' then
        (case rf_name form of
           None \<Rightarrow> respond (Abort 400) [] db []
         | Some name \<Rightarrow>
        (case rf_email form of
           None \<Rightarrow> respond (Abort 400) [] db []
         | Some raw_email \<Rightarrow>
        (case rf_password form of
           None \<Rightarrow> respond (Abort 400) [] db []
         | Some password \<Rightarrow>
        (let email = lower (strip raw_email);
             user_type = (case rf_user_type form of None \<Rightarrow> ''citizen'' | Some t \<Rightarrow> t)
         in case ensure_db_connection env db of
              None \<Rightarrow> respond (Abort 500) [] db []
            | Some db_local \<Rightarrow>
                if find_one (\<lambda>(i, u). u_email u = email) (users db_local) \<noteq> None
                then respond (Redirect ''/register'')
                       [(Text ''User already exists!'', ''error'')] db_local []
                else
                  (let user_id =
                         (if user_type = ''farmer''
                          then Some (''FRM-'' @ str_nat (randint env 100000 999999))
                          else if user_type = ''business''
                          then Some (''BUS-'' @ str_nat (randint env 100000 999999))
                          else None);
                       db' = db_local\<lparr>users := insert_one
                               \<lparr>u_name = Some name, u_email = email,
                                u_password = generate_password_hash env password,
                                u_user_type = user_type, u_user_id = user_id,
                                u_created_at = now env, u_wallet = 0,
                                u_phone = None, u_address = None, u_bank_details = None,
                                u_payment_methods = None\<rparr>
                               (users db_local)\<rparr>;
                       flash_msg = ''Registration successful!'' @
                         (case user_id of
                            None \<Rightarrow> []
                          | Some uid \<Rightarrow> '' Your '' @ capitalize user_type @ '' ID is '' @ uid)
                   in respond (Redirect ''/login'') [(Text flash_msg, ''success'')] db' [])))))
      else respond (Render ''register.html'') [] db [])"

section \<open>Listing a product (app.py, lines 279--374)\<close>

record product_form =
  pf_name :: "string option"
  pf_price :: "string option"
  pf_category :: "string option"
  pf_description :: "string option"
  pf_image :: "string option"
  pf_address :: "string option"
  pf_user_quality :: "string option"
  pf_quantity :: "string option"

definition form_get :: "string option \<Rightarrow> string \<Rightarrow> string" where
  "form_get field dflt = (case field of None \<Rightarrow> dflt | Some v \<Rightarrow> v)"

text \<open>
  The score handed to \<open>compute_adjusted_price\<close> is the exact sum that
  \<open>analyze_quality\<close> returns here; the float sum of app.py differs from it by at most
  one unit in the last place and compares in the same way with 0.8 and with 0.5.
\<close>

definition add_product :: "env \<Rightarrow> session \<Rightarrow> product_form \<Rightarrow> database \<Rightarrow> outcome" where
  "add_product env session form db =
     (if s_user session = None then respond (Redirect ''/login'') [] db []
      else if s_user_type session \<notin> {Some ''farmer'', Some ''business'', Some ''admin''}
      then respond (Redirect ''/dashboard'')
             [(Text ''Only farmers and businesses can list products!'', ''error'')] db []
      else
        (case ensure_db_connection env db of
           None \<Rightarrow> respond (Redirect ''/dashboard'')
                     [(Text ''Database connection error. Please try again later.'', ''error'')] db []
         | Some db_local \<Rightarrow>
            (let name = form_get (pf_name form) [];
                 price_str = form_get (pf_price form) ''0'';
                 category = form_get (pf_category form) ''General'';
                 desc = form_get (pf_description form) []
             in if name = []
                then respond (Redirect ''/add-listing'')
                       [(Text ''Product name is required.'', ''error'')] db_local []
                else
                  (case float_of_str env price_str of
                     None \<Rightarrow> respond (Redirect ''/add-listing'')
                       [(Text ''Invalid price provided. Please enter a numeric value.'', ''error'')]
                       db_local []
                   | Some price \<Rightarrow>
                      (let image_url = (if form_get (pf_image form) [] \<noteq> []
                                        then save_image env (form_get (pf_image form) [])
                                        else []);
                           address = form_get (pf_address form) [];
                           user_quality = form_get (pf_user_quality form) []
                       in case py_int env (case pf_quantity form of
                                             None \<Rightarrow> JInt 0 | Some q \<Rightarrow> JStr q) of
                            Inl e \<Rightarrow> respond (Redirect ''/add-listing'')
                                       [(UploadError e, ''error'')] db_local []
                          | Inr quantity \<Rightarrow>
                             (let quality = analyze_quality name desc category price;
                                  adj_price = compute_adjusted_price price (Finite quality);
                                  db' = db_local\<lparr>products := insert_one
                                          \<lparr>p_name = Some name, p_price = price,
                                           p_adjusted_price = adj_price,
                                           p_category = category, p_description = desc,
                                           p_address = address, p_image = image_url,
                                           p_owner = s_user session,
                                           p_owner_type = s_user_type session,
                                           p_quality_score = quality,
                                           p_user_quality = user_quality,
                                           p_quantity = Some quantity,
                                           p_created_at = now env\<rparr>
                                          (products db_local)\<rparr>
                              in respond (Redirect ''/dashboard'')
                                   [(Text ''Product listed successfully with AI Quality Score!'',
                                     ''success'')] db' []))))))"

section \<open>Payment verification (app.py, lines 457--588)\<close>

definition server_error :: "exn \<Rightarrow> database \<Rightarrow> gateway_call list \<Rightarrow> outcome" where
  "server_error e db calls = respond (Json 500 (Failed (StrOf e))) [] db calls"

text \<open>
  "Create Shiprocket Order" (lines 486--542): every failure inside the block is caught
  and leaves \<open>shipment_id\<close> at \<open>None\<close>.
\<close>

definition create_shipment ::
  "env \<Rightarrow> session \<Rightarrow> (string \<times> json) list \<Rightarrow> (oid \<times> product) option \<Rightarrow> int \<Rightarrow> json \<Rightarrow> json \<Rightarrow> json" where
  "create_shipment env session d product qty delivery_address pincode =
     (case product of
        None \<Rightarrow> JNull
      | Some (pid, p) \<Rightarrow>
          if shiprocket_token env = None \<or> shiprocket_token env = Some [] then JNull
          else shiprocket_create env
                 \<lparr>sr_order_id = (dict_get d ''razorpay_order_id'', randint env 100 999),
                  sr_order_date = now env,
                  sr_billing_customer_name = form_get (s_name session) ''Customer'',
                  sr_billing_address = delivery_address,
                  sr_billing_pincode = pincode,
                  sr_billing_email = form_get (s_user session) ''email@example.com'',
                  sr_item_name = p_name p,
                  sr_item_sku = pid,
                  sr_item_units = qty,
                  sr_item_selling_price = p_adjusted_price p,
                  sr_sub_total = dict_get d ''amount'',
                  sr_weight = 1 * qty\<rparr>)"

text \<open>
  "Fetch payment details" (lines 544--550): the method of the payment in upper case,
  and "Razorpay" when the lookup or the conversion raises.
\<close>

definition fetch_payment_method :: "client \<Rightarrow> json \<Rightarrow> string" where
  "fetch_payment_method client payment_id =
     (case payment_fetch client payment_id of
        Inl e \<Rightarrow> ''Razorpay''
      | Inr payment_details \<Rightarrow>
          (case payment_details of
             JDict kvs \<Rightarrow>
               (case dict_get_default kvs ''method'' (JStr ''Razorpay'') of
                  JStr m \<Rightarrow> upper m
                | JNull \<Rightarrow> ''Razorpay''
                | JBool b \<Rightarrow> ''Razorpay''
                | JInt n \<Rightarrow> ''Razorpay''
                | JFloat r \<Rightarrow> ''Razorpay''
                | JList xs \<Rightarrow> ''Razorpay''
                | JDict kvs' \<Rightarrow> ''Razorpay'')
           | JNull \<Rightarrow> ''Razorpay''
           | JBool b \<Rightarrow> ''Razorpay''
           | JInt n \<Rightarrow> ''Razorpay''
           | JFloat r \<Rightarrow> ''Razorpay''
           | JStr s \<Rightarrow> ''Razorpay''
           | JList xs \<Rightarrow> ''Razorpay''))"

text \<open>
  Lines 478--579, after the signature has been verified: the product lookup, the
  shipment, the order record and the decrement of the product's quantity.
\<close>

definition settle_payment ::
  "env \<Rightarrow> session \<Rightarrow> client \<Rightarrow> (string \<times> json) list \<Rightarrow> database \<Rightarrow> gateway_call list \<Rightarrow> outcome" where
  "settle_payment env session client d db calls =
     (case ensure_db_connection env db of
        None \<Rightarrow> server_error AttributeError db calls
      | Some db_local \<Rightarrow>
     (case ObjectId env (dict_get d ''product_id'') of
        Inl e \<Rightarrow> server_error e db_local calls
      | Inr product_oid \<Rightarrow>
     (let product = (case product_oid of
                       None \<Rightarrow> None
                     | Some i \<Rightarrow> find_one (by_id i) (products db_local))
      in case py_int env (dict_get_default d ''quantity'' (JInt 1)) of
        Inl e \<Rightarrow> server_error e db_local calls
      | Inr qty \<Rightarrow>
     (let delivery_address = dict_get_default d ''address'' (JStr ''KropKart Hub'');
          pincode = dict_get_default d ''pincode'' (JStr ''110001'');
          shipment_id = create_shipment env session d product qty delivery_address pincode;
          payment_method = fetch_payment_method client (dict_get d ''razorpay_payment_id'');
          calls' = calls @ [PaymentFetch (dict_get d ''razorpay_payment_id'')];
          db1 = db_local\<lparr>orders := insert_one
                  \<lparr>o_user = s_user session,
                   o_product_id = dict_get d ''product_id'',
                   o_product_name = (case product of
                                       None \<Rightarrow> Some ''Unknown''
                                     | Some (pid, p) \<Rightarrow> p_name p),
                   o_quantity = qty,
                   o_amount = dict_get d ''amount'',
                   o_payment_method = payment_method,
                   o_delivery_address = delivery_address,
                   o_pincode = pincode,
                   o_status = ''paid'',
                   o_delivery_status = ''Processing'',
                   o_shipment_id = shipment_id,
                   o_razorpay_payment_id = dict_get d ''razorpay_payment_id'',
                   o_date = now env,
                   o_refund_id = None,
                   o_refunded_at = None\<rparr>
                  (orders db_local)\<rparr>;
          db2 = (case product of
                   None \<Rightarrow> db1
                 | Some (pid, p) \<Rightarrow>
                     (let new_qty = max 0 ((case p_quantity p of None \<Rightarrow> 0 | Some q \<Rightarrow> q) - qty)
                      in db1\<lparr>products := update_one (by_id pid)
                              (\<lambda>doc. doc\<lparr>p_quantity := Some new_qty\<rparr>) (products db1)\<rparr>))
      in respond (Json 200 (Success shipment_id)) [] db2 calls'))))"

definition verify_payment :: "env \<Rightarrow> session \<Rightarrow> exn + json \<Rightarrow> database \<Rightarrow> outcome" where
  "verify_payment env session body db =
     (case body of
        Inl e \<Rightarrow> server_error e db []
      | Inr data \<Rightarrow>
          if \<not> truthy data
          then respond (Json 400 (Failed (Text ''No data received''))) [] db []
          else
            (case data of
               JDict d \<Rightarrow>
                 (let order_id = dict_get d ''razorpay_order_id'';
                      payment_id = dict_get d ''razorpay_payment_id'';
                      signature = dict_get d ''razorpay_signature''
                  in case razorpay_client env of
                       None \<Rightarrow> server_error
                                 (Exception ''Razorpay Client not initialized on server'') db []
                     | Some client \<Rightarrow>
                         (case verify_payment_signature client order_id payment_id signature of
                            Some e \<Rightarrow>
                              if e = SignatureVerificationError
                              then respond
                                     (Json 400 (Failed (Text
                                        ''Security Check Failed: Payment Signature Mismatch'')))
                                     [] db [VerifySignature order_id payment_id signature]
                              else server_error e db
                                     [VerifySignature order_id payment_id signature]
                          | None \<Rightarrow>
                              settle_payment env session client d db
                                [VerifySignature order_id payment_id signature]))
             | JNull \<Rightarrow> server_error AttributeError db []
             | JBool b \<Rightarrow> server_error AttributeError db []
             | JInt n \<Rightarrow> server_error AttributeError db []
             | JFloat r \<Rightarrow> server_error AttributeError db []
             | JStr s \<Rightarrow> server_error AttributeError db []
             | JList xs \<Rightarrow> server_error AttributeError db []))"

section \<open>Refund (app.py, lines 658--717)\<close>

definition refund_failed :: "exn \<Rightarrow> database \<Rightarrow> gateway_call list \<Rightarrow> outcome" where
  "refund_failed e db calls = respond (Redirect ''/admin'') [(RefundFailed e, ''error'')] db calls"

definition refund_order :: "env \<Rightarrow> session \<Rightarrow> string \<Rightarrow> database \<Rightarrow> outcome" where
  "refund_order env session order_id db =
     (if s_user session = None then respond (Redirect ''/login'') [] db []
      else if s_user_type session \<noteq> Some ''admin''
      then respond (Redirect ''/dashboard'') [(Text ''Unauthorized access!'', ''error'')] db []
      else
        (case ensure_db_connection env db of
           None \<Rightarrow> refund_failed AttributeError db []
         | Some db_local \<Rightarrow>
        (case object_id_of_str env (clean_id order_id) of
           None \<Rightarrow> refund_failed InvalidId db_local []
         | Some oid \<Rightarrow>
        (case find_one (by_id oid) (orders db_local) of
           None \<Rightarrow> respond (Redirect ''/admin'') [(Text ''Order not found.'', ''error'')] db_local []
         | Some (i, order) \<Rightarrow>
            if o_status order = ''Refunded''
            then respond (Redirect ''/admin'')
                   [(Text ''Order is already refunded.'', ''info'')] db_local []
            else
              (let payment_id = o_razorpay_payment_id order
               in if \<not> truthy payment_id
                  then respond (Redirect ''/admin'')
                         [(Text ''No payment ID found for this order. Cannot refund.'', ''error'')]
                         db_local []
                  else
                    (case razorpay_client env of
                       None \<Rightarrow> respond (Redirect ''/admin'')
                                 [(Text ''Razorpay client not ready.'', ''error'')] db_local []
                     | Some client \<Rightarrow>
                    (case py_int env (o_amount order) of
                       Inl e \<Rightarrow> refund_failed e db_local []
                     | Inr amount \<Rightarrow>
                    (case payment_refund client payment_id amount of
                       Inl e \<Rightarrow> refund_failed e db_local [PaymentRefund payment_id amount]
                     | Inr refund_res \<Rightarrow>
                    (case refund_res of
                       JDict kvs \<Rightarrow>
                         respond (Redirect ''/admin'')
                           [(RefundProcessed amount, ''success'')]
                           (db_local\<lparr>orders := update_one (by_id oid)
                              (\<lambda>doc. doc\<lparr>o_status := ''Refunded'',
                                          o_refund_id := Some (dict_get kvs ''id''),
                                          o_refunded_at := Some (now env)\<rparr>)
                              (orders db_local)\<rparr>)
                           [PaymentRefund payment_id amount]
                     | JNull \<Rightarrow> refund_failed AttributeError db_local [PaymentRefund payment_id amount]
                     | JBool b \<Rightarrow> refund_failed AttributeError db_local [PaymentRefund payment_id amount]
                     | JInt n \<Rightarrow> refund_failed AttributeError db_local [PaymentRefund payment_id amount]
                     | JFloat r \<Rightarrow> refund_failed AttributeError db_local [PaymentRefund payment_id amount]
                     | JStr s \<Rightarrow> refund_failed AttributeError db_local [PaymentRefund payment_id amount]
                     | JList xs \<Rightarrow> refund_failed AttributeError db_local [PaymentRefund payment_id amount])))))))))"

section \<open>Profile (app.py, lines 752--813)\<close>

record profile_form =
  pr_name :: "string option"
  pr_phone :: "string option"
  pr_address :: "string option"
  pr_bank_name :: "string option"
  pr_account_number :: "string option"
  pr_ifsc_code :: "string option"
  pr_upi_id :: "string option"
  pr_payment_methods :: "string option"

text \<open>
  The session's own updates (\<open>session["user_id"]\<close>, \<open>session["name"]\<close>) are cookie
  state and not part of the outcome.
\<close>

definition profile :: "env \<Rightarrow> session \<Rightarrow> string \<Rightarrow> profile_form \<Rightarrow> database \<Rightarrow> outcome" where
  "profile env session method form db =
     (if s_user session = None then respond (Redirect ''/login'') [] db []
      else if s_user_type session = Some ''admin''
      then respond (Redirect ''/dashboard'')
             [(Text ''Admins do not have a profile page.'', ''info'')] db []
      else
        (case ensure_db_connection env db of
           None \<Rightarrow> respond (Abort 500) [] db []
         | Some db_local \<Rightarrow>
        (case find_one (\<lambda>(i, u). Some (u_email u) = s_user session) (users db_local) of
           None \<Rightarrow> respond (Abort 500) [] db_local []
         | Some (uid, user) \<Rightarrow>
            (let new_id =
                   (if u_user_id user = None \<or> u_user_id user = Some []
                    then (if u_user_type user = ''farmer''
                          then Some (''FRM-'' @ str_nat (randint env 100000 999999))
                          else if u_user_type user = ''business''
                          then Some (''BUS-'' @ str_nat (randint env 100000 999999))
                          else None)
                    else None);
                 db1 = (case new_id of
                          None \<Rightarrow> db_local
                        | Some n \<Rightarrow> db_local\<lparr>users := update_one (by_id uid)
                                      (\<lambda>doc. doc\<lparr>u_user_id := Some n\<rparr>) (users db_local)\<rparr>)
             in if method = ''POST''
                then respond (Redirect ''/profile'')
                       [(Text ''Profile updated successfully!'', ''success'')]
                       (db1\<lparr>users := update_one (\<lambda>(i, u). Some (u_email u) = s_user session)
                          (\<lambda>doc. doc\<lparr>u_name := pr_name form,
                                      u_phone := pr_phone form,
                                      u_address := pr_address form,
                                      u_bank_details := Some (pr_bank_name form,
                                        pr_account_number form, pr_ifsc_code form, pr_upi_id form),
                                      u_payment_methods :=
                                        Some (form_get (pr_payment_methods form) [])\<rparr>)
                          (users db1)\<rparr>) []
                else respond (Render ''profile.html'') [] db1 []))))"

section \<open>Deleting a product (app.py, lines 828--850)\<close>

definition referrer_or_home :: "string option \<Rightarrow> string" where
  "referrer_or_home referrer =
     (case referrer of None \<Rightarrow> ''/'' | Some r \<Rightarrow> if r = [] then ''/'' else r)"

definition delete_product ::
  "env \<Rightarrow> session \<Rightarrow> string \<Rightarrow> string option \<Rightarrow> database \<Rightarrow> outcome" where
  "delete_product env session product_id referrer db =
     (if s_user session = None then respond (Redirect ''/login'') [] db []
      else
        (case ensure_db_connection env db of
           None \<Rightarrow> respond (Redirect (referrer_or_home referrer))
                     [(Text ''Invalid product reference.'', ''error'')] db []
         | Some db_local \<Rightarrow>
        (case object_id_of_str env (clean_id product_id) of
           None \<Rightarrow> respond (Redirect (referrer_or_home referrer))
                     [(Text ''Invalid product reference.'', ''error'')] db_local []
         | Some oid \<Rightarrow>
        (case find_one (by_id oid) (products db_local) of
           None \<Rightarrow> respond (Redirect ''/'') [(Text ''Product not found!'', ''error'')] db_local []
         | Some (i, product) \<Rightarrow>
            if s_user_type session = Some ''admin'' \<or> p_owner product = s_user session
            then respond (Redirect (referrer_or_home referrer))
                   [(Text ''Product deleted successfully!'', ''success'')]
                   (db_local\<lparr>products := delete_one (by_id oid) (products db_local)\<rparr>) []
            else respond (Redirect (referrer_or_home referrer))
                   [(Text ''Unauthorized to delete this product!'', ''error'')] db_local []))))"

section \<open>The application as a transition system\<close>

text \<open>
  The requests that write to the database. The other routes of app.py (the listings,
  checkout, create_order, the webhook, the chat, admin, my-orders, login, logout) only
  read it.
\<close>

datatype operation =
    Register string register_form
  | AddProduct session product_form
  | VerifyPayment session "exn + json"
  | RefundOrder session string
  | Profile session string profile_form
  | DeleteProduct session string "string option"

definition handle :: "env \<Rightarrow> operation \<Rightarrow> database \<Rightarrow> outcome" where
  "handle env op db =
     (case op of
        Register method form \<Rightarrow> register env method form db
      | AddProduct session form \<Rightarrow> add_product env session form db
      | VerifyPayment session body \<Rightarrow> verify_payment env session body db
      | RefundOrder session order_id \<Rightarrow> refund_order env session order_id db
      | Profile session method form \<Rightarrow> profile env session method form db
      | DeleteProduct session product_id referrer \<Rightarrow>
          delete_product env session product_id referrer db)"

definition empty_db :: database where
  "empty_db = \<lparr>users = [], products = [], orders = []\<rparr>"

text \<open>The databases that the application builds from the empty one, request by request.\<close>

inductive reachable :: "database \<Rightarrow> bool" where
  reachable_empty: "reachable empty_db"
| reachable_step: "reachable db \<Longrightarrow> reachable (store (handle env op db))"

section \<open>An environment for concrete runs\<close>

text \<open>
  A concrete world on which the handlers can be run: a client that accepts exactly the
  signature "valid-signature", ObjectIds read as 24 hexadecimal digits, \<open>int\<close> and
  \<open>float\<close> reading optionally signed decimal integers, no Shiprocket token.
\<close>

definition hex_digit :: "char \<Rightarrow> nat option" where
  "hex_digit c =
     (let n = (of_char c :: nat)
      in if 48 \<le> n \<and> n \<le> 57 then Some (n - 48)
         else if 97 \<le> n \<and> n \<le> 102 then Some (n - 87)
         else if 65 \<le> n \<and> n \<le> 70 then Some (n - 55)
         else None)"

fun hex_value :: "nat \<Rightarrow> string \<Rightarrow> nat option" where
  "hex_value acc [] = Some acc"
| "hex_value acc (c # cs) =
     (case hex_digit c of None \<Rightarrow> None | Some v \<Rightarrow> hex_value (16 * acc + v) cs)"

definition demo_object_id :: "string \<Rightarrow> oid option" where
  "demo_object_id s = (if length s = 24 then hex_value 0 s else None)"

fun decimal_value :: "nat \<Rightarrow> string \<Rightarrow> nat option" where
  "decimal_value acc [] = Some acc"
| "decimal_value acc (c # cs) =
     (let n = (of_char c :: nat)
      in if 48 \<le> n \<and> n \<le> 57 then decimal_value (10 * acc + (n - 48)) cs else None)"

definition demo_int :: "string \<Rightarrow> int option" where
  "demo_int s =
     (case strip s of
        [] \<Rightarrow> None
      | c # cs \<Rightarrow>
          if c = CHR ''-'' then (if cs = [] then None
                                 else map_option (\<lambda>n. - int n) (decimal_value 0 cs))
          else if c = CHR ''+'' then (if cs = [] then None
                                      else map_option int (decimal_value 0 cs))
          else map_option int (decimal_value 0 (c # cs)))"

definition demo_client :: client where
  "demo_client =
     \<lparr>verify_payment_signature =
        (\<lambda>order_id payment_id signature.
           if signature = JStr ''valid-signature'' then None
           else Some SignatureVerificationError),
      payment_fetch = (\<lambda>payment_id. Inr (JDict [(''method'', JStr ''upi'')])),
      payment_refund = (\<lambda>payment_id amount. Inr (JDict [(''id'', JStr ''rfnd_1'')]))\<rparr>"

definition demo_env :: env where
  "demo_env =
     \<lparr>razorpay_client = Some demo_client,
      shiprocket_token = None,
      shiprocket_create = (\<lambda>sr. JNull),
      db_connected = True,
      object_id_of_str = demo_object_id,
      int_of_str = demo_int,
      float_of_str = (\<lambda>s. map_option (\<lambda>n. fl (of_int n)) (demo_int s)),
      generate_password_hash = (\<lambda>password. ''pbkdf2:'' @ password),
      randint = (\<lambda>lo hi. lo),
      now = 0,
      save_image = (\<lambda>filename. ''/statics/image/0_'' @ filename)\<rparr>"

definition farmer_session :: session where
  "farmer_session =
     \<lparr>s_user = Some ''ravi@example.com'', s_name = Some ''Ravi'', s_user_type = Some ''farmer''\<rparr>"

definition citizen_session :: session where
  "citizen_session =
     \<lparr>s_user = Some ''asha@example.com'', s_name = Some ''Asha'', s_user_type = Some ''citizen''\<rparr>"

definition admin_session :: session where
  "admin_session =
     \<lparr>s_user = Some ''root@example.com'', s_name = Some ''Root'', s_user_type = Some ''admin''\<rparr>"

definition anonymous_session :: session where
  "anonymous_session = \<lparr>s_user = None, s_name = None, s_user_type = None\<rparr>"

definition rice_form :: "string \<Rightarrow> product_form" where
  "rice_form quantity =
     \<lparr>pf_name = Some ''Organic Rice'', pf_price = Some ''100'', pf_category = Some ''Grain'',
      pf_description = Some ''fresh'', pf_image = None, pf_address = Some ''Guntur'',
      pf_user_quality = None, pf_quantity = Some quantity\<rparr>"

definition payment_fields :: "string \<Rightarrow> string \<Rightarrow> json \<Rightarrow> (string \<times> json) list" where
  "payment_fields signature product_id quantity =
     [(''razorpay_order_id'', JStr ''order_1''),
      (''razorpay_payment_id'', JStr ''pay_1''),
      (''razorpay_signature'', JStr signature),
      (''product_id'', JStr product_id),
      (''quantity'', quantity),
      (''amount'', JInt 21400)]"

definition first_id :: string where
  "first_id = ''000000000000000000000001''"

text \<open>The database after a farmer has listed three units of rice, ...\<close>

definition rice_db :: database where
  "rice_db = store (handle demo_env (AddProduct farmer_session (rice_form ''3'')) empty_db)"

text \<open>... after a citizen has then paid for two of them, and after the refund of that order.\<close>

definition paid_db :: database where
  "paid_db = store (handle demo_env
     (VerifyPayment citizen_session (Inr (JDict (payment_fields ''valid-signature'' first_id (JInt 2)))))
     rice_db)"

definition refunded_db :: database where
  "refunded_db = store (handle demo_env (RefundOrder admin_session first_id) paid_db)"

text \<open>The rice database after a payment for five units, two more than are in stock.\<close>

definition oversold_db :: database where
  "oversold_db = store (verify_payment demo_env citizen_session
     (Inr (JDict (payment_fields ''valid-signature'' first_id (JInt 5)))) rice_db)"




section \<open>Float arithmetic\<close>

subsection \<open>Rounding to the nearest float\<close>

lemma round_half_even_cases:
  "round_half_even x = \<lfloor>x\<rfloor> \<or> round_half_even x = \<lfloor>x\<rfloor> + 1"
  by (simp add: round_half_even_def Let_def)

lemma round_half_even_mono:
  assumes "x \<le> y"
  shows "round_half_even x \<le> round_half_even y"
proof (cases "\<lfloor>x\<rfloor> = \<lfloor>y\<rfloor>")
  case True
  from assms have "x - of_int \<lfloor>x\<rfloor> \<le> y - of_int \<lfloor>x\<rfloor>" by simp
  with True show ?thesis
    by (auto simp add: round_half_even_def Let_def)
next
  case False
  from assms have "\<lfloor>x\<rfloor> \<le> \<lfloor>y\<rfloor>" by (rule floor_mono)
  with False have lt: "\<lfloor>x\<rfloor> + 1 \<le> \<lfloor>y\<rfloor>" by simp
  have "round_half_even x \<le> \<lfloor>x\<rfloor> + 1"
    using round_half_even_cases [of x] by auto
  moreover have "\<lfloor>y\<rfloor> \<le> round_half_even y"
    using round_half_even_cases [of y] by auto
  ultimately show ?thesis using lt by linarith
qed

lemma round_half_even_of_int [simp]: "round_half_even (of_int n) = n"
  by (simp add: round_half_even_def)

lemma round_half_even_error: "\<bar>of_int (round_half_even x) - x\<bar> \<le> 1/2"
proof -
  have "of_int \<lfloor>x\<rfloor> \<le> x" "x < of_int \<lfloor>x\<rfloor> + 1"
    by linarith+
  then show ?thesis
    by (auto simp add: round_half_even_def Let_def abs_le_iff)
qed

lemma round_half_even_nonneg: "0 \<le> x \<Longrightarrow> 0 \<le> round_half_even x"
  using round_half_even_mono [of 0 x] round_half_even_of_int [of 0] by simp

lemma ilog2_bounds:
  assumes "0 < y"
  shows "2 powi (ilog2 y) \<le> y" and "y < 2 powi (ilog2 y + 1)"
proof -
  obtain p q where pq: "quotient_of y = (p, q)" by (cases "quotient_of y")
  then have q: "0 < q" and y: "y = of_int p / of_int q"
    by (auto dest: quotient_of_denom_pos quotient_of_div)
  with assms have p: "0 < p"
    by (simp add: zero_less_divide_iff)
  define bp bq where "bp = bitlen p" and "bq = bitlen q"
  from bitlen_bounds [OF p] have "2 ^ nat (bp - 1) \<le> p" "p < 2 ^ nat bp"
    by (simp_all add: bp_def)
  then have "(2::rat) ^ nat (bp - 1) \<le> of_int p" "(of_int p :: rat) < 2 ^ nat bp"
    by (metis of_int_le_iff of_int_numeral of_int_power, metis of_int_less_iff of_int_numeral of_int_power)
  moreover have "1 \<le> bp" "1 \<le> bq"
    using p q bitlen_eq_zero_iff [of p] bitlen_eq_zero_iff [of q] bitlen_nonneg [of p] bitlen_nonneg [of q]
    by (auto simp: bp_def bq_def)
  ultimately have P: "(2::rat) powi (bp - 1) \<le> of_int p" "(of_int p :: rat) < 2 powi bp"
    by (simp_all add: power_int_def)
  from bitlen_bounds [OF q] have "2 ^ nat (bq - 1) \<le> q" "q < 2 ^ nat bq"
    by (simp_all add: bq_def)
  then have "(2::rat) ^ nat (bq - 1) \<le> of_int q" "(of_int q :: rat) < 2 ^ nat bq"
    by (metis of_int_le_iff of_int_numeral of_int_power, metis of_int_less_iff of_int_numeral of_int_power)
  with \<open>1 \<le> bq\<close> have Q: "(2::rat) powi (bq - 1) \<le> of_int q" "(of_int q :: rat) < 2 powi bq"
    by (simp_all add: power_int_def)
  have qpos: "(0::rat) < of_int q" using q by simp
  have ppos: "(0::rat) < of_int p" using p by simp
  have lower: "2 powi (bp - bq - 1) \<le> y"
  proof -
    have "(2::rat) powi (bp - bq - 1) = 2 powi ((bp - 1) - bq)"
      by (rule arg_cong [where f = "\<lambda>n. 2 powi n"]) simp
    also have "\<dots> = 2 powi (bp - 1) / 2 powi bq"
      by (rule power_int_diff) simp
    also have "\<dots> \<le> of_int p / 2 powi bq"
      using P(1) by (simp add: divide_right_mono)
    also have "\<dots> \<le> of_int p / of_int q"
      using Q(2) qpos ppos by (simp add: frac_le)
    finally show ?thesis by (simp add: y)
  qed
  have upper: "y < 2 powi (bp - bq + 1)"
  proof -
    have "y = of_int p / of_int q" by (rule y)
    also have "\<dots> < 2 powi bp / of_int q"
      using P(2) qpos by (simp add: divide_strict_right_mono)
    also have "\<dots> \<le> 2 powi bp / 2 powi (bq - 1)"
      using Q(1) by (simp add: frac_le)
    also have "\<dots> = 2 powi (bp - (bq - 1))"
      by (rule power_int_diff [symmetric]) simp
    also have "\<dots> = 2 powi (bp - bq + 1)"
      by (rule arg_cong [where f = "\<lambda>n. 2 powi n"]) simp
    finally show ?thesis .
  qed
  have e0: "ilog2 y = (if y < 2 powi (bp - bq) then bp - bq - 1 else bp - bq)"
    by (simp add: ilog2_def Let_def pq bp_def bq_def)
  show "2 powi (ilog2 y) \<le> y"
    using lower by (auto simp: e0)
  show "y < 2 powi (ilog2 y + 1)"
    using upper by (auto simp: e0)
qed

lemma two_powi_pos [simp]: "(0::rat) < 2 powi n"
  by (simp add: zero_less_power_int)

lemma two_powi_mono: "m \<le> n \<Longrightarrow> (2::rat) powi m \<le> 2 powi n"
  by (simp add: power_int_increasing)

lemma two_powi_half: "(2::rat) powi (n - 1) = 2 powi n / 2"
  using power_int_diff [of "2::rat" n 1] by simp

lemma two_powi_shift: "(2::rat) powi (n - int k) = 2 powi n / 2 ^ k"
  using power_int_diff [of "2::rat" n "int k"] by simp

lemma round_to_double_eq:
  "y \<noteq> 0 \<Longrightarrow> round_to_double y =
     of_int (round_half_even (y / 2 powi double_exponent y)) * 2 powi double_exponent y"
  by (simp add: round_to_double_def)

lemma round_to_double_error:
  "\<bar>round_to_double y - y\<bar> \<le> \<bar>y\<bar> / 2 ^ 53 + 2 powi (- 1075)"
proof (cases "y = 0")
  case True
  then show ?thesis by (simp add: round_to_double_def less_imp_le)
next
  case False
  define e where "e = double_exponent y"
  define s where "s = (2::rat) powi e"
  have s: "0 < s" by (simp add: s_def)
  have "round_to_double y - y = (of_int (round_half_even (y / s)) - y / s) * s"
    using False s by (simp add: round_to_double_eq e_def s_def algebra_simps)
  then have "\<bar>round_to_double y - y\<bar> = \<bar>of_int (round_half_even (y / s)) - y / s\<bar> * s"
    using s by (simp add: abs_mult)
  also have "\<dots> \<le> 1/2 * s"
    using round_half_even_error [of "y / s"] s by (intro mult_right_mono) simp_all
  finally have half: "\<bar>round_to_double y - y\<bar> \<le> s / 2" by simp
  have "s / 2 \<le> \<bar>y\<bar> / 2 ^ 53 + 2 powi (- 1075)"
  proof (cases "ilog2 \<bar>y\<bar> - 52 \<le> - 1074")
    case True
    then have "e = - 1074" by (simp add: e_def double_exponent_def)
    then have "s / 2 = 2 powi (- 1075)"
      using two_powi_half [of "- 1074"] by (simp add: s_def)
    then show ?thesis by simp
  next
    case False
    then have "e = ilog2 \<bar>y\<bar> - int 52" by (simp add: e_def double_exponent_def)
    then have "s = 2 powi (ilog2 \<bar>y\<bar>) / 2 ^ 52"
      unfolding s_def by (simp only: two_powi_shift)
    moreover have "2 powi (ilog2 \<bar>y\<bar>) \<le> \<bar>y\<bar>"
      using \<open>y \<noteq> 0\<close> by (intro ilog2_bounds) simp
    ultimately have "s \<le> \<bar>y\<bar> / 2 ^ 52"
      by (simp add: divide_right_mono)
    then have "s / 2 \<le> \<bar>y\<bar> / 2 ^ 52 / 2" by (simp add: divide_right_mono)
    also have "\<dots> = \<bar>y\<bar> / 2 ^ 53" by simp
    finally show ?thesis
      using two_powi_pos [of "- 1075"] by linarith
  qed
  with half show ?thesis by linarith
qed

lemma round_to_double_nonneg:
  assumes "0 \<le> y"
  shows "0 \<le> round_to_double y"
proof (cases "y = 0")
  case True
  then show ?thesis by (simp add: round_to_double_def)
next
  case False
  from assms have "0 \<le> y / 2 powi double_exponent y" by simp
  then have "0 \<le> round_half_even (y / 2 powi double_exponent y)"
    by (rule round_half_even_nonneg)
  then show ?thesis
    unfolding round_to_double_eq [OF False] by (intro mult_nonneg_nonneg) simp_all
qed

lemma ilog2_mono:
  assumes "0 < x" "x \<le> y"
  shows "ilog2 x \<le> ilog2 y"
proof (rule ccontr)
  assume "\<not> ilog2 x \<le> ilog2 y"
  then have "ilog2 y + 1 \<le> ilog2 x" by simp
  then have "(2::rat) powi (ilog2 y + 1) \<le> 2 powi (ilog2 x)" by (rule two_powi_mono)
  also have "\<dots> \<le> x" using assms(1) by (rule ilog2_bounds)
  finally have "2 powi (ilog2 y + 1) \<le> y" using assms(2) by simp
  moreover have "y < 2 powi (ilog2 y + 1)" using assms by (intro ilog2_bounds) simp
  ultimately show False by simp
qed

lemma round_to_double_mono:
  assumes "0 \<le> x" "x \<le> y"
  shows "round_to_double x \<le> round_to_double y"
proof (cases "x = 0")
  case True
  with assms show ?thesis
    using round_to_double_nonneg [of y] by (simp add: round_to_double_def)
next
  case False
  with assms have x: "0 < x" and y: "0 < y" by simp_all
  define kx ky ex ey where "kx = ilog2 x" and "ky = ilog2 y"
    and "ex = double_exponent x" and "ey = double_exponent y"
  have ex: "ex = max (kx - 52) (- 1074)" and ey: "ey = max (ky - 52) (- 1074)"
    using x y by (simp_all add: ex_def ey_def kx_def ky_def double_exponent_def)
  have k: "kx \<le> ky" unfolding kx_def ky_def using x assms(2) by (rule ilog2_mono)
  have rx: "round_to_double x = of_int (round_half_even (x / 2 powi ex)) * 2 powi ex"
    using x by (simp add: round_to_double_eq ex_def)
  have ry: "round_to_double y = of_int (round_half_even (y / 2 powi ey)) * 2 powi ey"
    using y by (simp add: round_to_double_eq ey_def)
  show ?thesis
  proof (cases "ex = ey")
    case True
    have "x / 2 powi ey \<le> y / 2 powi ey"
      using assms(2) by (simp add: divide_right_mono)
    then have "round_half_even (x / 2 powi ey) \<le> round_half_even (y / 2 powi ey)"
      by (rule round_half_even_mono)
    then show ?thesis
      unfolding rx ry True by (simp add: mult_right_mono)
  next
    case False
    with k ex ey have lt: "ex < ey" and eyk: "ey = ky - 52" and kk: "kx + 1 \<le> ky"
      by auto
    define n where "n = nat (ky - ex)"
    from lt eyk have n: "ky - ex = int n" by (simp add: n_def)
    have pow: "(2::rat) powi ky = 2 ^ n * 2 powi ex"
    proof -
      have "(2::rat) powi ky = 2 powi (int n + ex)"
        by (rule arg_cong [where f = "\<lambda>n. 2 powi n"]) (use n in simp)
      also have "\<dots> = 2 powi (int n) * 2 powi ex"
        by (rule power_int_add) simp
      finally show ?thesis by simp
    qed
    have "x < 2 powi (kx + 1)" unfolding kx_def using x by (rule ilog2_bounds)
    also have "\<dots> \<le> 2 powi ky" using kk by (rule two_powi_mono)
    finally have "x / 2 powi ex \<le> 2 ^ n"
      by (simp add: pow pos_divide_le_eq less_imp_le)
    then have "round_half_even (x / 2 powi ex) \<le> round_half_even (of_int (2 ^ n))"
      by (intro round_half_even_mono) simp
    then have "round_half_even (x / 2 powi ex) \<le> 2 ^ n"
      by (simp only: round_half_even_of_int)
    then have "(of_int (round_half_even (x / 2 powi ex)) :: rat) \<le> of_int (2 ^ n)"
      by (simp only: of_int_le_iff)
    then have "round_to_double x \<le> 2 ^ n * 2 powi ex"
      unfolding rx by (simp add: mult_right_mono)
    then have upper: "round_to_double x \<le> 2 powi ky" by (simp add: pow)
    have pow52: "(2::rat) powi ky = 2 ^ 52 * 2 powi ey"
    proof -
      have "(2::rat) powi ky = 2 powi (int 52 + ey)"
        by (rule arg_cong [where f = "\<lambda>n. 2 powi n"]) (use eyk in simp)
      also have "\<dots> = 2 powi (int 52) * 2 powi ey"
        by (rule power_int_add) simp
      finally show ?thesis by simp
    qed
    have "2 powi ky \<le> y" unfolding ky_def using y by (rule ilog2_bounds)
    then have "2 ^ 52 \<le> y / 2 powi ey"
      by (simp add: pow52 pos_le_divide_eq)
    then have "round_half_even (of_int (2 ^ 52)) \<le> round_half_even (y / 2 powi ey)"
      by (intro round_half_even_mono) simp
    then have "2 ^ 52 \<le> round_half_even (y / 2 powi ey)"
      by (simp only: round_half_even_of_int)
    then have "(of_int (2 ^ 52) :: rat) \<le> of_int (round_half_even (y / 2 powi ey))"
      by (simp only: of_int_le_iff)
    then have "2 ^ 52 * 2 powi ey \<le> round_to_double y"
      unfolding ry by (simp add: mult_right_mono)
    then have "2 powi ky \<le> round_to_double y" by (simp add: pow52)
    with upper show ?thesis by simp
  qed
qed

lemma overflow_iff: "2 ^ 1024 \<le> r \<longleftrightarrow> 0 < r \<and> 1024 \<le> ilog2 r"
proof
  assume big: "2 ^ 1024 \<le> r"
  have pos: "0 < r" by (rule less_le_trans [OF _ big]) simp
  have "1024 \<le> ilog2 r"
  proof (rule ccontr)
    assume "\<not> 1024 \<le> ilog2 r"
    then have "ilog2 r + 1 \<le> int 1024" by simp
    then have "(2::rat) powi (ilog2 r + 1) \<le> 2 powi (int 1024)" by (rule two_powi_mono)
    moreover have "r < 2 powi (ilog2 r + 1)" using pos by (rule ilog2_bounds)
    ultimately have "r < 2 powi (int 1024)" by simp
    then have "r < 2 ^ 1024" by (simp only: power_int_of_nat)
    with big show False by simp
  qed
  with pos show "0 < r \<and> 1024 \<le> ilog2 r" by simp
next
  assume "0 < r \<and> 1024 \<le> ilog2 r"
  then have pos: "0 < r" and "int 1024 \<le> ilog2 r" by simp_all
  then have "(2::rat) powi (int 1024) \<le> 2 powi (ilog2 r)" by (intro two_powi_mono)
  also have "\<dots> \<le> r" using pos by (rule ilog2_bounds)
  finally show "2 ^ 1024 \<le> r" by (simp only: power_int_of_nat)
qed

lemma fl_code [code]:
  "fl y =
     (let r = round_to_double y
      in if 0 < r \<and> 1024 \<le> ilog2 r then PosInf
         else if r < 0 \<and> 1024 \<le> ilog2 (- r) then NegInf
         else Finite r)"
proof -
  have "round_to_double y \<le> - (2 ^ 1024) \<longleftrightarrow> 2 ^ 1024 \<le> - round_to_double y"
    by linarith
  then show ?thesis
    unfolding fl_def Let_def overflow_iff by simp
qed

lemma threshold_values:
  "fl (8/10) = Finite (3602879701896397 / 4503599627370496)"
  "fl (5/10) = Finite (1/2)"
  by code_simp+

lemma factor_values:
  "fadd (fadd (Finite 1) (fl (5/100))) (fl (5/100)) = Finite (2476979795053773 / 2251799813685248)"
  "fadd (fadd (Finite 1) (fl (5/100))) (fl (2/100)) = Finite (4818851601286431 / 4503599627370496)"
  "fadd (fadd (Finite 1) (fl (5/100))) (Finite 0) = Finite (4728779608739021 / 4503599627370496)"
  by code_simp+

lemma compute_adjusted_price_factor:
  "compute_adjusted_price base q = py_round2 (fmul base (Finite (price_factor q)))"
proof -
  consider (high) "fgt q (fl (8/10))"
    | (mid) "\<not> fgt q (fl (8/10))" "fgt q (fl (5/10))"
    | (low) "\<not> fgt q (fl (8/10))" "\<not> fgt q (fl (5/10))"
    by blast
  then show ?thesis
  proof cases
    case high
    then show ?thesis
      unfolding compute_adjusted_price_def price_factor_def Let_def
      by (simp only: if_True factor_values)
  next
    case mid
    then show ?thesis
      unfolding compute_adjusted_price_def price_factor_def Let_def
      by (simp only: if_True if_False factor_values)
  next
    case low
    then show ?thesis
      unfolding compute_adjusted_price_def price_factor_def Let_def
      by (simp only: if_False factor_values)
  qed
qed

lemma price_factor_bounds:
  "0 < price_factor q" "price_factor q \<le> 2"
  "\<bar>price_factor q - (105/100 + quality_bonus q)\<bar> \<le> 1 / 2 ^ 52"
  unfolding price_factor_def quality_bonus_def
  by simp_all

lemma fgt_fle_trans: "fgt q1 (Finite t) \<Longrightarrow> fle q1 q2 \<Longrightarrow> fgt q2 (Finite t)"
  by (cases q1; cases q2) auto

lemma price_factor_mono:
  assumes "fle q1 q2"
  shows "price_factor q1 \<le> price_factor q2"
  unfolding price_factor_def threshold_values
  using assms fgt_fle_trans [of q1 _ q2]
  by auto

lemma fl_nonneg_cases:
  assumes "0 \<le> x"
  shows "fl x = PosInf \<or> (fl x = Finite (round_to_double x) \<and> 0 \<le> round_to_double x)"
  using round_to_double_nonneg [OF assms]
  by (auto simp add: fl_def Let_def)

lemma fl_mono:
  assumes "0 \<le> x" "x \<le> y"
  shows "fle (fl x) (fl y)"
proof -
  from assms have le: "round_to_double x \<le> round_to_double y"
    by (rule round_to_double_mono)
  from assms have "0 \<le> round_to_double x" "0 \<le> round_to_double y"
    by (simp_all add: round_to_double_nonneg)
  with le show ?thesis
    by (auto simp add: fl_def Let_def)
qed

lemma py_round2_mono:
  assumes "fle (Finite 0) u" "fle u v"
  shows "fle (py_round2 u) (py_round2 v)"
proof (cases u)
  case (Finite x)
  with assms(1) have x: "0 \<le> x" by simp
  show ?thesis
  proof (cases v)
    case (Finite y)
    with \<open>u = Finite x\<close> assms(2) have "x \<le> y" by simp
    then have "round_half_even (x * 100) \<le> round_half_even (y * 100)"
      by (intro round_half_even_mono) simp
    then have "(of_int (round_half_even (x * 100)) :: rat) / 100
               \<le> of_int (round_half_even (y * 100)) / 100"
      by (simp add: divide_right_mono)
    moreover have "(0::rat) \<le> of_int (round_half_even (x * 100)) / 100"
      using x round_half_even_nonneg [of "x * 100"] by simp
    ultimately show ?thesis
      unfolding Finite \<open>u = Finite x\<close> py_round2.simps by (intro fl_mono)
  next
    case PosInf
    have "0 \<le> (of_int (round_half_even (x * 100)) :: rat) / 100"
      using x round_half_even_nonneg [of "x * 100"] by simp
    from fl_nonneg_cases [OF this] show ?thesis
      unfolding PosInf \<open>u = Finite x\<close> by auto
  qed (use assms \<open>u = Finite x\<close> in simp_all)
next
  case PosInf
  with assms(2) show ?thesis by (cases v) simp_all
next
  case NegInf
  with assms(1) show ?thesis by simp
next
  case NaN
  with assms(1) show ?thesis by simp
qed

lemma fmul_factor_mono:
  assumes "fle (Finite 0) base" "0 < c" "c \<le> c'"
  shows "fle (Finite 0) (fmul base (Finite c))"
    and "fle (fmul base (Finite c)) (fmul base (Finite c'))"
proof -
  show "fle (Finite 0) (fmul base (Finite c))"
  proof (cases base)
    case (Finite b)
    with assms have "0 \<le> b * c" by simp
    from fl_nonneg_cases [OF this] show ?thesis unfolding Finite by auto
  qed (use assms in simp_all)
  show "fle (fmul base (Finite c)) (fmul base (Finite c'))"
  proof (cases base)
    case (Finite b)
    with assms have "0 \<le> b * c" "b * c \<le> b * c'" by (simp_all add: mult_left_mono)
    then show ?thesis unfolding Finite fmul.simps by (rule fl_mono)
  qed (use assms in simp_all)
qed

lemma tier_sums:
  "fl (105/100 + 5/100) = Finite (2476979795053773 / 2251799813685248)"
  "fl (105/100 + 2/100) = Finite (4818851601286431 / 4503599627370496)"
  "fl (105/100 + 0) = Finite (4728779608739021 / 4503599627370496)"
  by code_simp+

lemma price_factor_nearest: "Finite (price_factor q) = fl (105/100 + quality_bonus q)"
proof -
  consider (high) "fgt q (fl (8/10))"
    | (mid) "\<not> fgt q (fl (8/10))" "fgt q (fl (5/10))"
    | (low) "\<not> fgt q (fl (8/10))" "\<not> fgt q (fl (5/10))"
    by blast
  then show ?thesis
  proof cases
    case high
    then show ?thesis
      unfolding price_factor_def quality_bonus_def
      by (simp only: if_True tier_sums)
  next
    case mid
    then show ?thesis
      unfolding price_factor_def quality_bonus_def
      by (simp only: if_True if_False tier_sums)
  next
    case low
    then show ?thesis
      unfolding price_factor_def quality_bonus_def
      by (simp only: if_False tier_sums)
  qed
qed

section \<open>Responses and collections\<close>

lemma respond_simps [simp]:
  "response (respond r msgs db calls) = r"
  "flashed (respond r msgs db calls) = msgs"
  "store (respond r msgs db calls) = db"
  "gateway_calls (respond r msgs db calls) = calls"
  by (simp_all add: respond_def)

lemma server_error_simps [simp]:
  "response (server_error e db calls) = Json 500 (Failed (StrOf e))"
  "flashed (server_error e db calls) = []"
  "store (server_error e db calls) = db"
  "gateway_calls (server_error e db calls) = calls"
  by (simp_all add: server_error_def)

lemma refund_failed_simps [simp]:
  "response (refund_failed e db calls) = Redirect ''/admin''"
  "flashed (refund_failed e db calls) = [(RefundFailed e, ''error'')]"
  "store (refund_failed e db calls) = db"
  "gateway_calls (refund_failed e db calls) = calls"
  by (simp_all add: refund_failed_def)

subsection \<open>Collections\<close>

lemma set_update_one:
  "x \<in> set (update_one q f coll) \<Longrightarrow>
     x \<in> set coll \<or> (\<exists>y \<in> set coll. q y \<and> x = (fst y, f (snd y)))"
  by (induction coll) (auto split: if_splits)

lemma set_insert_one: "set (insert_one doc coll) = insert (new_id coll, doc) (set coll)"
  by (simp add: insert_one_def)

lemma foldr_max_ge: "x \<in> set xs \<Longrightarrow> x \<le> foldr max xs (0::nat)"
  by (induction xs) (auto simp: max_def)

lemma new_id_fresh: "(i, d) \<in> set coll \<Longrightarrow> i < new_id coll"
proof -
  assume "(i, d) \<in> set coll"
  then have "i \<in> set (map fst coll)" by force
  then have "i \<le> foldr max (map fst coll) 0" by (rule foldr_max_ge)
  then show ?thesis by (simp add: new_id_def)
qed

lemma find_one_by_id_fst: "find_one (by_id i) coll = Some (j, d) \<Longrightarrow> j = i"
  by (induction coll) (auto simp: find_one_def by_id_def split: if_splits)

lemma find_one_in_set: "find_one q coll = Some x \<Longrightarrow> x \<in> set coll \<and> q x"
  by (induction coll) (auto simp: find_one_def split: if_splits)

lemma find_append_Some: "find q xs = Some x \<Longrightarrow> find q (xs @ ys) = Some x"
  by (induction xs) (auto split: if_splits)

lemma find_one_insert_one:
  "find_one q coll = Some x \<Longrightarrow> find_one q (insert_one doc coll) = Some x"
  by (simp add: find_one_def insert_one_def find_append_Some)

lemma find_one_update_one_other:
  "i \<noteq> j \<Longrightarrow> find_one (by_id i) (update_one (by_id j) f coll) = find_one (by_id i) coll"
  by (induction coll) (auto simp: find_one_def by_id_def split: if_splits)

lemma find_one_update_one_same:
  "find_one (by_id i) coll = Some (i, d) \<Longrightarrow>
     find_one (by_id i) (update_one (by_id i) f coll) = Some (i, f d)"
  by (induction coll) (auto simp: find_one_def by_id_def split: if_splits)

lemma length_delete_one:
  "find_one q coll = Some x \<Longrightarrow> length (delete_one q coll) + 1 = length coll"
  by (induction coll) (auto simp: find_one_def split: if_splits)

subsection \<open>What the requests write to the products\<close>

lemma settle_payment_products:
  assumes "(i, p) \<in> set (products (store (settle_payment env session client d db calls)))"
  shows "(i, p) \<in> set (products db) \<or> (\<exists>q. p_quantity p = Some q \<and> 0 \<le> q)"
  using assms
  by (auto simp: settle_payment_def Let_def ensure_db_connection_def
           split: option.splits sum.splits if_splits prod.splits dest!: set_update_one)

lemma verify_payment_products:
  assumes "(i, p) \<in> set (products (store (verify_payment env session body db)))"
  shows "(i, p) \<in> set (products db) \<or> (\<exists>q. p_quantity p = Some q \<and> 0 \<le> q)"
  using assms
  by (auto simp: verify_payment_def Let_def
           split: option.splits sum.splits if_splits json.splits dest: settle_payment_products)

lemma add_product_products:
  assumes "(i, p) \<in> set (products (store (add_product env session form db)))"
  shows "(i, p) \<in> set (products db)
       \<or> (\<exists>q. py_int env (case pf_quantity form of None \<Rightarrow> JInt 0 | Some s \<Rightarrow> JStr s) = Inr q
              \<and> p_quantity p = Some q)"
  using assms
  by (auto simp: add_product_def Let_def ensure_db_connection_def set_insert_one
           split: option.splits sum.splits if_splits)

lemma set_update_one_found:
  "x \<in> set (update_one q f coll) \<Longrightarrow>
     x \<in> set coll \<or> (\<exists>y. find_one q coll = Some y \<and> x = (fst y, f (snd y)))"
  by (induction coll) (auto simp: find_one_def split: if_splits)

lemma settle_payment_decrement:
  assumes "db_connected env"
      and "ObjectId env (dict_get d ''product_id'') = Inr (Some oid)"
      and "find_one (by_id oid) (products db) = Some (i, p0)"
      and "py_int env (dict_get_default d ''quantity'' (JInt 1)) = Inr qty"
  shows "products (store (settle_payment env session client d db calls)) =
           update_one (by_id i)
             (\<lambda>doc. doc\<lparr>p_quantity :=
                Some (max 0 ((case p_quantity p0 of None \<Rightarrow> 0 | Some q \<Rightarrow> q) - qty))\<rparr>)
             (products db)"
  using assms
  by (simp add: settle_payment_def Let_def ensure_db_connection_def)

lemma settle_payment_written:
  assumes "(i, p) \<in> set (products (store (settle_payment env session client d db calls)))"
  shows "(i, p) \<in> set (products db)
       \<or> (\<exists>p0 qty. (i, p0) \<in> set (products db)
             \<and> py_int env (dict_get_default d ''quantity'' (JInt 1)) = Inr qty
             \<and> p = p0\<lparr>p_quantity :=
                    Some (max 0 ((case p_quantity p0 of None \<Rightarrow> 0 | Some q \<Rightarrow> q) - qty))\<rparr>)"
proof (cases "(i, p) \<in> set (products db)")
  case True
  then show ?thesis by simp
next
  case False
  with assms obtain oid j p0 qty where
    found: "find_one (by_id oid) (products db) = Some (j, p0)" and
    qty: "py_int env (dict_get_default d ''quantity'' (JInt 1)) = Inr qty" and
    written: "(i, p) \<in> set (update_one (by_id j)
                (\<lambda>doc. doc\<lparr>p_quantity :=
                   Some (max 0 ((case p_quantity p0 of None \<Rightarrow> 0 | Some q \<Rightarrow> q) - qty))\<rparr>)
                (products db))"
    by (auto simp: settle_payment_def Let_def ensure_db_connection_def
             split: option.splits sum.splits if_splits prod.splits)
  from found have j: "j = oid" by (rule find_one_by_id_fst)
  from set_update_one_found [OF written] False found j
  have "(i, p) = (j, p0\<lparr>p_quantity :=
                   Some (max 0 ((case p_quantity p0 of None \<Rightarrow> 0 | Some q \<Rightarrow> q) - qty))\<rparr>)"
    by auto
  moreover from found have "(j, p0) \<in> set (products db)"
    by (auto dest: find_one_in_set)
  ultimately show ?thesis using qty by auto
qed

lemma verify_payment_store:
  "store (verify_payment env session body db) = db
   \<or> (\<exists>d client calls. body = Inr (JDict d)
         \<and> store (verify_payment env session body db)
             = store (settle_payment env session client d db calls))"
proof (cases body)
  case (Inl e)
  then show ?thesis by (simp add: verify_payment_def)
next
  case (Inr data)
  show ?thesis
  proof (cases data)
    case (JDict d)
    show ?thesis
    proof (cases "razorpay_client env")
      case None
      with Inr JDict show ?thesis by (simp add: verify_payment_def Let_def)
    next
      case (Some client)
      show ?thesis
      proof (cases "verify_payment_signature client (dict_get d ''razorpay_order_id'')
             (dict_get d ''razorpay_payment_id'') (dict_get d ''razorpay_signature'')")
        case None
        with Inr JDict Some show ?thesis
          by (cases "d = []") (simp_all add: verify_payment_def Let_def, blast)
      next
        case (Some e)
        with Inr JDict \<open>razorpay_client env = Some client\<close> show ?thesis
          by (simp add: verify_payment_def Let_def)
      qed
    qed
  qed (use Inr in \<open>simp_all add: verify_payment_def\<close>)
qed

lemma verify_payment_written:
  assumes "(i, p) \<in> set (products (store (verify_payment env session body db)))"
  shows "(i, p) \<in> set (products db)
       \<or> (\<exists>d p0 qty. body = Inr (JDict d) \<and> (i, p0) \<in> set (products db)
             \<and> py_int env (dict_get_default d ''quantity'' (JInt 1)) = Inr qty
             \<and> p = p0\<lparr>p_quantity :=
                    Some (max 0 ((case p_quantity p0 of None \<Rightarrow> 0 | Some q \<Rightarrow> q) - qty))\<rparr>)"
proof -
  from verify_payment_store [of env session body db]
  consider "store (verify_payment env session body db) = db"
    | d client calls where "body = Inr (JDict d)"
        "store (verify_payment env session body db)
           = store (settle_payment env session client d db calls)"
    by blast
  then show ?thesis
  proof cases
    case 1
    with assms show ?thesis by simp
  next
    case 2
    from assms 2(2)
    have "(i, p) \<in> set (products (store (settle_payment env session client d db calls)))"
      by simp
    from settle_payment_written [OF this] 2(1) show ?thesis
      by blast
  qed
qed

lemma verify_payment_decrement:
  assumes "razorpay_client env = Some client"
      and "d \<noteq> []"
      and "verify_payment_signature client (dict_get d ''razorpay_order_id'')
             (dict_get d ''razorpay_payment_id'') (dict_get d ''razorpay_signature'') = None"
      and "db_connected env"
      and "ObjectId env (dict_get d ''product_id'') = Inr (Some oid)"
      and "find_one (by_id oid) (products db) = Some (i, p0)"
      and "py_int env (dict_get_default d ''quantity'' (JInt 1)) = Inr qty"
  shows "products (store (verify_payment env session (Inr (JDict d)) db)) =
           update_one (by_id i)
             (\<lambda>doc. doc\<lparr>p_quantity :=
                Some (max 0 ((case p_quantity p0 of None \<Rightarrow> 0 | Some q \<Rightarrow> q) - qty))\<rparr>)
             (products db)"
  using assms settle_payment_decrement [OF assms(4-7)]
  by (simp add: verify_payment_def Let_def)

lemma add_product_appends:
  "products (store (add_product env session form db)) = products db
   \<or> (\<exists>p q. products (store (add_product env session form db))
               = products db @ [(new_id (products db), p)]
            \<and> py_int env (case pf_quantity form of None \<Rightarrow> JInt 0 | Some s \<Rightarrow> JStr s) = Inr q
            \<and> p_quantity p = Some q)"
  by (auto simp: add_product_def Let_def ensure_db_connection_def insert_one_def
           split: option.splits sum.splits if_splits)

subsection \<open>Normalised e-mail addresses\<close>

lemma is_space_lower_char [simp]: "is_space (lower_char c) = is_space c"
  by (auto simp: is_space_def lower_char_def Let_def)

lemma lower_char_idem [simp]: "lower_char (lower_char c) = lower_char c"
  by (auto simp: lower_char_def Let_def)

lemma dropWhile_is_space_lower:
  "dropWhile is_space (map lower_char s) = map lower_char (dropWhile is_space s)"
  by (induction s) auto

lemma strip_lower: "strip (lower s) = lower (strip s)"
  by (simp add: strip_def lower_def rev_map dropWhile_is_space_lower)

lemma lower_idem: "lower (lower s) = lower s"
  by (simp add: lower_def)

lemma last_dropWhile: "dropWhile P xs \<noteq> [] \<Longrightarrow> last (dropWhile P xs) = last xs"
  by (induction xs) (auto split: if_splits)

lemma strip_idem: "strip (strip s) = strip s"
proof -
  define s1 where "s1 = dropWhile is_space s"
  define s2 where "s2 = dropWhile is_space (rev s1)"
  have strip: "strip s = rev s2"
    by (simp add: strip_def s1_def s2_def)
  have "dropWhile is_space (rev s2) = rev s2"
  proof (cases "s2 = []")
    case True
    then show ?thesis by simp
  next
    case False
    then have "last s2 = last (rev s1)"
      unfolding s2_def by (simp add: last_dropWhile)
    moreover from False have ne: "s1 \<noteq> []"
      unfolding s2_def by auto
    ultimately have "last s2 = hd s1"
      by (simp add: last_rev)
    moreover have "\<not> is_space (hd s1)"
      using ne unfolding s1_def by (rule hd_dropWhile)
    ultimately show ?thesis
      using False by (simp add: dropWhile_eq_self_iff hd_rev)
  qed
  then have "strip (rev s2) = rev s2"
    by (simp add: strip_def s2_def)
  with strip show ?thesis by simp
qed

lemma normalise_idem: "lower (strip (lower (strip s))) = lower (strip s)"
  by (simp add: strip_lower strip_idem lower_idem)

subsection \<open>What each request does to the orders and to the users\<close>

lemma find_one_update_one:
  "find_one (by_id i) coll = Some (i, d) \<Longrightarrow>
     find_one (by_id i) (update_one (by_id j) f coll) = Some (i, if i = j then f d else d)"
  by (induction coll) (auto simp: find_one_def by_id_def split: if_splits)

lemma register_orders: "orders (store (register env method form db)) = orders db"
  by (simp add: register_def Let_def ensure_db_connection_def split: option.splits)

lemma add_product_orders: "orders (store (add_product env session form db)) = orders db"
  by (simp add: add_product_def Let_def ensure_db_connection_def split: option.splits sum.splits)

lemma profile_orders: "orders (store (profile env session method form db)) = orders db"
  by (simp add: profile_def Let_def ensure_db_connection_def split: option.splits prod.splits)

lemma delete_product_orders:
  "orders (store (delete_product env session product_id referrer db)) = orders db"
  by (simp add: delete_product_def Let_def ensure_db_connection_def split: option.splits prod.splits)

lemma add_product_users: "users (store (add_product env session form db)) = users db"
  by (simp add: add_product_def Let_def ensure_db_connection_def split: option.splits sum.splits)

lemma settle_payment_users:
  "users (store (settle_payment env session client d db calls)) = users db"
  by (simp add: settle_payment_def Let_def ensure_db_connection_def
        split: option.splits sum.splits prod.splits)

lemma verify_payment_users: "users (store (verify_payment env session body db)) = users db"
  by (simp add: verify_payment_def Let_def settle_payment_users
        split: option.splits sum.splits json.splits)

lemma refund_order_users: "users (store (refund_order env session order_id db)) = users db"
  by (simp add: refund_order_def Let_def ensure_db_connection_def
        split: option.splits sum.splits prod.splits json.splits)

lemma delete_product_users:
  "users (store (delete_product env session product_id referrer db)) = users db"
  by (simp add: delete_product_def Let_def ensure_db_connection_def split: option.splits prod.splits)

lemma settle_payment_find_order:
  "find_one q (orders db) = Some x \<Longrightarrow>
     find_one q (orders (store (settle_payment env session client d db calls))) = Some x"
  by (auto simp: settle_payment_def Let_def ensure_db_connection_def find_one_insert_one
           split: option.splits sum.splits prod.splits)
lemma verify_payment_find_order:
  "find_one q (orders db) = Some x \<Longrightarrow>
     find_one q (orders (store (verify_payment env session body db))) = Some x"
  by (auto simp: verify_payment_def Let_def settle_payment_find_order
           split: option.splits sum.splits json.splits)
lemma settle_payment_new_orders:
  "(i, order) \<in> set (orders (store (settle_payment env session client d db calls))) \<Longrightarrow>
     (i, order) \<in> set (orders db) \<or> o_status order = ''paid''"
  by (auto simp: settle_payment_def Let_def ensure_db_connection_def set_insert_one
           split: option.splits sum.splits prod.splits if_splits)
lemma verify_payment_new_orders:
  "(i, order) \<in> set (orders (store (verify_payment env session body db))) \<Longrightarrow>
     (i, order) \<in> set (orders db) \<or> o_status order = ''paid''"
  by (auto simp: verify_payment_def Let_def
           split: option.splits sum.splits json.splits if_splits
           dest: settle_payment_new_orders)
lemma refund_order_find_order:
  "find_one (by_id i) (orders db) = Some (i, order) \<Longrightarrow>
     \<exists>order'. find_one (by_id i) (orders (store (refund_order env session order_id db)))
                 = Some (i, order')
       \<and> (order' = order
          \<or> (s_user_type session = Some ''admin'' \<and> o_status order \<noteq> ''Refunded''
             \<and> o_status order' = ''Refunded''))"
  by (auto simp: refund_order_def Let_def ensure_db_connection_def find_one_update_one
           split: option.splits sum.splits prod.splits json.splits)
lemma refund_order_new_orders:
  "(i, order) \<in> set (orders (store (refund_order env session order_id db))) \<Longrightarrow>
     (i, order) \<in> set (orders db) \<or> o_status order = ''Refunded''"
  by (auto simp: refund_order_def Let_def ensure_db_connection_def
           split: option.splits sum.splits prod.splits json.splits if_splits
           dest!: set_update_one)

lemma register_users:
  "(i, u) \<in> set (users (store (register env method form db))) \<Longrightarrow>
     (i, u) \<in> set (users db) \<or> (\<exists>raw. u_email u = lower (strip raw))"
  by (auto simp: register_def Let_def ensure_db_connection_def set_insert_one
           split: option.splits if_splits)

lemma profile_users:
  "(i, u) \<in> set (users (store (profile env session method form db))) \<Longrightarrow>
     \<exists>u0. (i, u0) \<in> set (users db) \<and> u_email u = u_email u0"
  by (fastforce simp: profile_def Let_def ensure_db_connection_def
           split: option.splits prod.splits if_splits
           dest!: set_update_one)

subsection \<open>Invariants of the reachable databases\<close>

lemma handle_users:
  "(i, u) \<in> set (users (store (handle env op db))) \<Longrightarrow>
     (\<exists>u0. (i, u0) \<in> set (users db) \<and> u_email u = u_email u0)
     \<or> (\<exists>raw. u_email u = lower (strip raw))"
proof (cases op)
  case (Register verb rform)
  assume "(i, u) \<in> set (users (store (handle env op db)))"
  with Register show ?thesis
    using register_users [of i u env verb rform db] by (auto simp: handle_def)
next
  case (AddProduct session form)
  assume "(i, u) \<in> set (users (store (handle env op db)))"
  with AddProduct show ?thesis by (auto simp: handle_def add_product_users)
next
  case (VerifyPayment session body)
  assume "(i, u) \<in> set (users (store (handle env op db)))"
  with VerifyPayment show ?thesis by (auto simp: handle_def verify_payment_users)
next
  case (RefundOrder session order_id)
  assume "(i, u) \<in> set (users (store (handle env op db)))"
  with RefundOrder show ?thesis by (auto simp: handle_def refund_order_users)
next
  case (Profile session verb pform)
  assume "(i, u) \<in> set (users (store (handle env op db)))"
  with Profile show ?thesis
    using profile_users [of i u env session verb pform db] by (auto simp: handle_def)
next
  case (DeleteProduct session product_id referrer)
  assume "(i, u) \<in> set (users (store (handle env op db)))"
  with DeleteProduct show ?thesis by (auto simp: handle_def delete_product_users)
qed

lemma handle_new_orders:
  "(i, order) \<in> set (orders (store (handle env op db))) \<Longrightarrow>
     (i, order) \<in> set (orders db) \<or> o_status order = ''paid'' \<or> o_status order = ''Refunded''"
proof (cases op)
  case (VerifyPayment session body)
  assume "(i, order) \<in> set (orders (store (handle env op db)))"
  with VerifyPayment show ?thesis
    using verify_payment_new_orders [of i order env session body db] by (auto simp: handle_def)
next
  case (RefundOrder session order_id)
  assume "(i, order) \<in> set (orders (store (handle env op db)))"
  with RefundOrder show ?thesis
    using refund_order_new_orders [of i order env session order_id db] by (auto simp: handle_def)
qed (auto simp: handle_def register_orders add_product_orders profile_orders
       delete_product_orders)

lemma handle_find_order:
  assumes "find_one (by_id i) (orders db) = Some (i, order)"
  shows "\<exists>order'. find_one (by_id i) (orders (store (handle env op db))) = Some (i, order')
           \<and> (order' = order
              \<or> ((\<exists>session order_id. op = RefundOrder session order_id
                                     \<and> s_user_type session = Some ''admin'')
                 \<and> o_status order \<noteq> ''Refunded'' \<and> o_status order' = ''Refunded''))"
proof (cases op)
  case (VerifyPayment session body)
  then show ?thesis
    using assms by (simp add: handle_def verify_payment_find_order)
next
  case (RefundOrder session order_id)
  then show ?thesis
    using refund_order_find_order [OF assms, of env session order_id]
    by (auto simp: handle_def)
qed (use assms in \<open>simp_all add: handle_def register_orders add_product_orders profile_orders
       delete_product_orders\<close>)

lemma reachable_invariant:
  "reachable db \<Longrightarrow>
     (\<forall>(i, u) \<in> set (users db). lower (strip (u_email u)) = u_email u)
     \<and> (\<forall>(i, order) \<in> set (orders db).
           o_status order = ''paid'' \<or> o_status order = ''Refunded'')"
proof (induction rule: reachable.induct)
  case reachable_empty
  show ?case by (simp add: empty_db_def)
next
  case (reachable_step db env op)
  have "lower (strip (u_email u)) = u_email u"
    if "(i, u) \<in> set (users (store (handle env op db)))" for i u
    using handle_users [OF that] reachable_step.IH by (auto simp: normalise_idem)
  moreover have "o_status order = ''paid'' \<or> o_status order = ''Refunded''"
    if "(i, order) \<in> set (orders (store (handle env op db)))" for i order
    using handle_new_orders [OF that] reachable_step.IH by auto
  ultimately show ?case by auto
qed


subsection \<open>The concrete databases are reachable\<close>

lemma reachable_rice_db: "reachable rice_db"
  unfolding rice_db_def by (rule reachable_step [OF reachable_empty])

lemma reachable_paid_db: "reachable paid_db"
  unfolding paid_db_def by (rule reachable_step [OF reachable_rice_db])


section \<open>Claims on payment verification\<close>

text \<open>
  C1. For every request to \<open>verify_payment\<close> whose payment signature the gateway
  client finds invalid (it raises SignatureVerificationError on the three signature
  fields of the request), the operation answers with status 400 and the message
  "Security Check Failed: Payment Signature Mismatch", and the database is left as it
  was: no order is inserted and no product quantity is decremented.
\<close>

theorem verify_payment_invalid_signature:
  assumes "razorpay_client env = Some client"
      and "d \<noteq> []"
      and "verify_payment_signature client (dict_get d ''razorpay_order_id'')
             (dict_get d ''razorpay_payment_id'') (dict_get d ''razorpay_signature'')
           = Some SignatureVerificationError"
  shows "response (verify_payment env session (Inr (JDict d)) db)
           = Json 400 (Failed (Text ''Security Check Failed: Payment Signature Mismatch''))
       \<and> store (verify_payment env session (Inr (JDict d)) db) = db"
  using assms by (simp add: verify_payment_def Let_def)

theorem verify_payment_invalid_signature_witness:
  "razorpay_client demo_env = Some demo_client
   \<and> verify_payment_signature demo_client
        (dict_get (payment_fields ''tampered'' first_id (JInt 2)) ''razorpay_order_id'')
        (dict_get (payment_fields ''tampered'' first_id (JInt 2)) ''razorpay_payment_id'')
        (dict_get (payment_fields ''tampered'' first_id (JInt 2)) ''razorpay_signature'')
      = Some SignatureVerificationError
   \<and> response (verify_payment demo_env citizen_session
        (Inr (JDict (payment_fields ''tampered'' first_id (JInt 2)))) rice_db)
      = Json 400 (Failed (Text ''Security Check Failed: Payment Signature Mismatch''))
   \<and> store (verify_payment demo_env citizen_session
        (Inr (JDict (payment_fields ''tampered'' first_id (JInt 2)))) rice_db) = rice_db
   \<and> orders rice_db = []
   \<and> map (\<lambda>(i, p). p_quantity p) (products rice_db) = [Some 3]"
proof -
  have h1: "razorpay_client demo_env = Some demo_client"
    by (simp add: demo_env_def)
  have h2: "payment_fields ''tampered'' first_id (JInt 2) \<noteq> []"
    by (simp add: payment_fields_def)
  have h3: "verify_payment_signature demo_client
        (dict_get (payment_fields ''tampered'' first_id (JInt 2)) ''razorpay_order_id'')
        (dict_get (payment_fields ''tampered'' first_id (JInt 2)) ''razorpay_payment_id'')
        (dict_get (payment_fields ''tampered'' first_id (JInt 2)) ''razorpay_signature'')
      = Some SignatureVerificationError"
    by code_simp
  have h4: "orders rice_db = [] \<and> map (\<lambda>(i, p). p_quantity p) (products rice_db) = [Some 3]"
    by code_simp
  from verify_payment_invalid_signature [OF h1 h2 h3] h1 h3 h4 show ?thesis
    by blast
qed




section \<open>Claims on the stored quantities\<close>

text \<open>
  C4 (as amended). The decrement step of \<open>verify_payment\<close> writes
  \<open>max(0, stored - ordered)\<close> as the quantity of the product it found, and changes
  nothing else of the products: it never stores a negative quantity. Product creation
  via \<open>add_product\<close> appends one record whose quantity is \<open>int\<close> of the submitted
  quantity (0 when the field is absent) as it is, without a lower bound.
\<close>

theorem product_quantity_after_write:
  "(razorpay_client env = Some client \<and> d \<noteq> []
    \<and> verify_payment_signature client (dict_get d ''razorpay_order_id'')
         (dict_get d ''razorpay_payment_id'') (dict_get d ''razorpay_signature'') = None
    \<and> db_connected env
    \<and> ObjectId env (dict_get d ''product_id'') = Inr (Some oid)
    \<and> find_one (by_id oid) (products db) = Some (oid, p0)
    \<and> py_int env (dict_get_default d ''quantity'' (JInt 1)) = Inr qty
    \<longrightarrow> products (store (verify_payment env session (Inr (JDict d)) db)) =
          update_one (by_id oid)
            (\<lambda>doc. doc\<lparr>p_quantity :=
               Some (max 0 ((case p_quantity p0 of None \<Rightarrow> 0 | Some q \<Rightarrow> q) - qty))\<rparr>)
            (products db)
      \<and> find_one (by_id oid) (products (store (verify_payment env session (Inr (JDict d)) db)))
          = Some (oid, p0\<lparr>p_quantity :=
               Some (max 0 ((case p_quantity p0 of None \<Rightarrow> 0 | Some q \<Rightarrow> q) - qty))\<rparr>))
   \<and> ((i, p) \<in> set (products (store (verify_payment env session body db)))
      \<longrightarrow> (i, p) \<in> set (products db)
         \<or> (\<exists>d' p1 n. body = Inr (JDict d') \<and> (i, p1) \<in> set (products db)
               \<and> py_int env (dict_get_default d' ''quantity'' (JInt 1)) = Inr n
               \<and> p = p1\<lparr>p_quantity :=
                      Some (max 0 ((case p_quantity p1 of None \<Rightarrow> 0 | Some q \<Rightarrow> q) - n))\<rparr>
               \<and> p_quantity p \<noteq> None \<and> 0 \<le> the (p_quantity p)))
   \<and> (products (store (add_product env session form db)) = products db
      \<or> (\<exists>p' q. products (store (add_product env session form db))
                   = products db @ [(new_id (products db), p')]
               \<and> py_int env (case pf_quantity form of None \<Rightarrow> JInt 0 | Some s \<Rightarrow> JStr s) = Inr q
               \<and> p_quantity p' = Some q))"
proof (intro conjI impI)
  assume h: "razorpay_client env = Some client \<and> d \<noteq> []
    \<and> verify_payment_signature client (dict_get d ''razorpay_order_id'')
         (dict_get d ''razorpay_payment_id'') (dict_get d ''razorpay_signature'') = None
    \<and> db_connected env
    \<and> ObjectId env (dict_get d ''product_id'') = Inr (Some oid)
    \<and> find_one (by_id oid) (products db) = Some (oid, p0)
    \<and> py_int env (dict_get_default d ''quantity'' (JInt 1)) = Inr qty"
  then show eq: "products (store (verify_payment env session (Inr (JDict d)) db)) =
          update_one (by_id oid)
            (\<lambda>doc. doc\<lparr>p_quantity :=
               Some (max 0 ((case p_quantity p0 of None \<Rightarrow> 0 | Some q \<Rightarrow> q) - qty))\<rparr>)
            (products db)"
    using verify_payment_decrement [of env client d oid db oid p0 qty session] by blast
  from h show "find_one (by_id oid)
                 (products (store (verify_payment env session (Inr (JDict d)) db)))
          = Some (oid, p0\<lparr>p_quantity :=
               Some (max 0 ((case p_quantity p0 of None \<Rightarrow> 0 | Some q \<Rightarrow> q) - qty))\<rparr>)"
    unfolding eq by (simp add: find_one_update_one_same)
next
  assume "(i, p) \<in> set (products (store (verify_payment env session body db)))"
  from verify_payment_written [OF this]
  show "(i, p) \<in> set (products db)
         \<or> (\<exists>d' p1 n. body = Inr (JDict d') \<and> (i, p1) \<in> set (products db)
               \<and> py_int env (dict_get_default d' ''quantity'' (JInt 1)) = Inr n
               \<and> p = p1\<lparr>p_quantity :=
                      Some (max 0 ((case p_quantity p1 of None \<Rightarrow> 0 | Some q \<Rightarrow> q) - n))\<rparr>
               \<and> p_quantity p \<noteq> None \<and> 0 \<le> the (p_quantity p))"
    by auto
next
  show "products (store (add_product env session form db)) = products db
      \<or> (\<exists>p' q. products (store (add_product env session form db))
                   = products db @ [(new_id (products db), p')]
               \<and> py_int env (case pf_quantity form of None \<Rightarrow> JInt 0 | Some s \<Rightarrow> JStr s) = Inr q
               \<and> p_quantity p' = Some q)"
    by (rule add_product_appends)
qed

theorem product_quantity_after_write_witness:
  "find_one (by_id 1) (products rice_db) = Some (1, snd (hd (products rice_db)))
   \<and> p_quantity (snd (hd (products rice_db))) = Some 3
   \<and> find_one (by_id 1) (products (store (verify_payment demo_env citizen_session
        (Inr (JDict (payment_fields ''valid-signature'' first_id (JInt 2)))) rice_db)))
      = Some (1, (snd (hd (products rice_db)))\<lparr>p_quantity := Some 1\<rparr>)
   \<and> find_one (by_id 1) (products (store (verify_payment demo_env citizen_session
        (Inr (JDict (payment_fields ''valid-signature'' first_id (JInt 5)))) rice_db)))
      = Some (1, (snd (hd (products rice_db)))\<lparr>p_quantity := Some 0\<rparr>)
   \<and> map (\<lambda>(i, p). p_quantity p)
        (products (store (verify_payment demo_env citizen_session
           (Inr (JDict (payment_fields ''valid-signature'' first_id (JInt 2)))) rice_db)))
      = [Some 1]
   \<and> map (\<lambda>(i, p). p_quantity p)
        (products (store (add_product demo_env farmer_session (rice_form ''3'') empty_db)))
      = [Some 3]"
proof -
  let ?two = "payment_fields ''valid-signature'' first_id (JInt 2)"
  let ?five = "payment_fields ''valid-signature'' first_id (JInt 5)"
  let ?rice = "snd (hd (products rice_db))"
  have h1: "razorpay_client demo_env = Some demo_client"
    by (simp add: demo_env_def)
  have h2: "?two \<noteq> [] \<and> ?five \<noteq> []"
    by (simp add: payment_fields_def)
  have h3: "verify_payment_signature demo_client (dict_get ?two ''razorpay_order_id'')
              (dict_get ?two ''razorpay_payment_id'') (dict_get ?two ''razorpay_signature'')
            = None"
    by code_simp
  have h3': "verify_payment_signature demo_client (dict_get ?five ''razorpay_order_id'')
              (dict_get ?five ''razorpay_payment_id'') (dict_get ?five ''razorpay_signature'')
            = None"
    by code_simp
  have h4: "db_connected demo_env"
    by (simp add: demo_env_def)
  have h5: "ObjectId demo_env (dict_get ?two ''product_id'') = Inr (Some 1)
            \<and> ObjectId demo_env (dict_get ?five ''product_id'') = Inr (Some 1)"
    by code_simp
  have h6: "find_one (by_id 1) (products rice_db) = Some (1, ?rice)"
    by code_simp
  have h7: "py_int demo_env (dict_get_default ?two ''quantity'' (JInt 1)) = Inr 2
            \<and> py_int demo_env (dict_get_default ?five ''quantity'' (JInt 1)) = Inr 5"
    by code_simp
  have stock: "p_quantity ?rice = Some 3"
    by code_simp
  have listed: "map (\<lambda>(i, p). p_quantity p)
        (products (store (add_product demo_env farmer_session (rice_form ''3'') empty_db)))
      = [Some 3]"
    by code_simp
  have after: "map (\<lambda>(i, p). p_quantity p)
        (products (store (verify_payment demo_env citizen_session (Inr (JDict ?two)) rice_db)))
      = [Some 1]"
    by code_simp
  from product_quantity_after_write
         [where env = demo_env and client = demo_client and d = ?two and oid = 1
            and db = rice_db and ?p0.0 = ?rice and qty = 2 and session = citizen_session, THEN conjunct1]
       h1 h2 h3 h4 h5 h6 h7
  have "find_one (by_id 1) (products (store (verify_payment demo_env citizen_session
               (Inr (JDict ?two)) rice_db)))
             = Some (1, ?rice\<lparr>p_quantity :=
                 Some (max 0 ((case p_quantity ?rice of None \<Rightarrow> 0 | Some q \<Rightarrow> q) - 2))\<rparr>)"
    by blast
  with stock
  have two: "find_one (by_id 1) (products (store (verify_payment demo_env citizen_session
               (Inr (JDict ?two)) rice_db)))
             = Some (1, ?rice\<lparr>p_quantity := Some 1\<rparr>)"
    by simp
  from product_quantity_after_write
         [where env = demo_env and client = demo_client and d = ?five and oid = 1
            and db = rice_db and ?p0.0 = ?rice and qty = 5 and session = citizen_session, THEN conjunct1]
       h1 h2 h3' h4 h5 h6 h7
  have "find_one (by_id 1) (products (store (verify_payment demo_env citizen_session
               (Inr (JDict ?five)) rice_db)))
             = Some (1, ?rice\<lparr>p_quantity :=
                 Some (max 0 ((case p_quantity ?rice of None \<Rightarrow> 0 | Some q \<Rightarrow> q) - 5))\<rparr>)"
    by blast
  with stock
  have five: "find_one (by_id 1) (products (store (verify_payment demo_env citizen_session
               (Inr (JDict ?five)) rice_db)))
             = Some (1, ?rice\<lparr>p_quantity := Some 0\<rparr>)"
    by simp
  from h6 stock two five after listed show ?thesis
    by blast
qed

text \<open>
  The claim as written fails for product creation: a farmer who submits the quantity
  "-5" gets a product record with the quantity -5.
\<close>

theorem add_product_negative_quantity_counterexample:
  "response (add_product demo_env farmer_session (rice_form ''-5'') empty_db)
     = Redirect ''/dashboard''
   \<and> map (\<lambda>(i, p). p_quantity p)
        (products (store (add_product demo_env farmer_session (rice_form ''-5'') empty_db)))
     = [Some (- 5)]
   \<and> \<not> (0::int) \<le> - 5"
  by code_simp

section \<open>Claims on refunds and on the status of an order\<close>

text \<open>
  C6. For every order whose status is already "Refunded", the admin refund operation
  \<open>refund_order\<close> is a no-op: it flashes the informational message "Order is already
  refunded.", redirects to the admin page, makes no call to the payment gateway and
  leaves the database, and so the order record, unchanged.
\<close>

theorem refund_order_already_refunded:
  assumes "s_user session \<noteq> None"
      and "s_user_type session = Some ''admin''"
      and "db_connected env"
      and "object_id_of_str env (clean_id order_id) = Some oid"
      and "find_one (by_id oid) (orders db) = Some (i, order)"
      and "o_status order = ''Refunded''"
  shows "refund_order env session order_id db =
           \<lparr>response = Redirect ''/admin'',
            flashed = [(Text ''Order is already refunded.'', ''info'')],
            store = db,
            gateway_calls = []\<rparr>"
  using assms by (simp add: refund_order_def ensure_db_connection_def respond_def)

theorem refund_order_already_refunded_witness:
  "s_user admin_session \<noteq> None
   \<and> s_user_type admin_session = Some ''admin''
   \<and> find_one (by_id 1) (orders refunded_db) = Some (1, snd (hd (orders refunded_db)))
   \<and> o_status (snd (hd (orders refunded_db))) = ''Refunded''
   \<and> refund_order demo_env admin_session first_id refunded_db =
           \<lparr>response = Redirect ''/admin'',
            flashed = [(Text ''Order is already refunded.'', ''info'')],
            store = refunded_db,
            gateway_calls = []\<rparr>"
proof -
  have h1: "s_user admin_session \<noteq> None" by (simp add: admin_session_def)
  have h2: "s_user_type admin_session = Some ''admin''" by (simp add: admin_session_def)
  have h3: "db_connected demo_env" by (simp add: demo_env_def)
  have h4: "object_id_of_str demo_env (clean_id first_id) = Some 1" by code_simp
  have h5: "find_one (by_id 1) (orders refunded_db) = Some (1, snd (hd (orders refunded_db)))"
    by code_simp
  have h6: "o_status (snd (hd (orders refunded_db))) = ''Refunded''" by code_simp
  from refund_order_already_refunded [OF h1 h2 h3 h4 h5 h6] h1 h2 h5 h6 show ?thesis
    by blast
qed

text \<open>
  C9. An order's status strictly moves forward. In every database that the application
  can reach, a request of any kind leaves every stored order in place, and leaves its
  status as it was unless the status was "paid", the request is the refund action of
  an admin session, and the new status is "Refunded"; an order that is "Refunded" is
  not changed at all by any request.
\<close>

theorem order_status_moves_forward:
  assumes "reachable db"
      and "find_one (by_id i) (orders db) = Some (i, order)"
  shows "\<exists>order'. find_one (by_id i) (orders (store (handle env op db))) = Some (i, order')
           \<and> (o_status order' = o_status order
              \<or> (o_status order = ''paid'' \<and> o_status order' = ''Refunded''
                 \<and> (\<exists>session order_id. op = RefundOrder session order_id
                                       \<and> s_user_type session = Some ''admin'')))
           \<and> (o_status order = ''Refunded'' \<longrightarrow> order' = order)"
proof -
  from assms(2) have "(i, order) \<in> set (orders db)"
    by (auto dest: find_one_in_set)
  with reachable_invariant [OF assms(1)]
  have known: "o_status order = ''paid'' \<or> o_status order = ''Refunded''"
    by auto
  from handle_find_order [OF assms(2), of env op] obtain order' where
    found: "find_one (by_id i) (orders (store (handle env op db))) = Some (i, order')" and
    change: "order' = order
             \<or> ((\<exists>session order_id. op = RefundOrder session order_id
                                    \<and> s_user_type session = Some ''admin'')
                \<and> o_status order \<noteq> ''Refunded'' \<and> o_status order' = ''Refunded'')"
    by blast
  from change known have
    "(o_status order' = o_status order
       \<or> (o_status order = ''paid'' \<and> o_status order' = ''Refunded''
          \<and> (\<exists>session order_id. op = RefundOrder session order_id
                                \<and> s_user_type session = Some ''admin'')))
     \<and> (o_status order = ''Refunded'' \<longrightarrow> order' = order)"
    by auto
  with found show ?thesis by blast
qed

theorem order_status_moves_forward_witness:
  "find_one (by_id 1) (orders paid_db) = Some (1, snd (hd (orders paid_db)))
   \<and> o_status (snd (hd (orders paid_db))) = ''paid''
   \<and> map (\<lambda>(i, order). o_status order)
        (orders (store (handle demo_env (RefundOrder admin_session first_id) paid_db)))
      = [''Refunded'']
   \<and> (\<exists>order'. find_one (by_id 1)
                    (orders (store (handle demo_env (RefundOrder admin_session first_id) paid_db)))
                  = Some (1, order')
               \<and> o_status order' = ''Refunded'')"
proof -
  have h2: "find_one (by_id 1) (orders paid_db) = Some (1, snd (hd (orders paid_db)))"
    by code_simp
  have paid: "o_status (snd (hd (orders paid_db))) = ''paid''"
    by code_simp
  have after: "map (\<lambda>(i, order). o_status order)
                 (orders (store (handle demo_env (RefundOrder admin_session first_id) paid_db)))
               = [''Refunded'']"
    by code_simp
  have one: "find_one (by_id 1)
               (orders (store (handle demo_env (RefundOrder admin_session first_id) paid_db)))
             = Some (hd (orders (store (handle demo_env (RefundOrder admin_session first_id)
                                          paid_db))))"
    by code_simp
  from order_status_moves_forward [OF reachable_paid_db h2,
         of demo_env "RefundOrder admin_session first_id"]
  obtain order' where
    found: "find_one (by_id 1)
              (orders (store (handle demo_env (RefundOrder admin_session first_id) paid_db)))
            = Some (1, order')"
    by blast
  from found one after have "o_status order' = ''Refunded''"
    by (cases "orders (store (handle demo_env (RefundOrder admin_session first_id) paid_db))")
       auto
  with found h2 paid after show ?thesis
    by blast
qed

section \<open>Claims on registration and on deleting a product\<close>



text \<open>
  C8 (as amended). For every actor and product, \<open>delete_product\<close> removes the product
  record only when the actor is logged in and is an admin or the owner of the listing.
  For any other logged-in actor no mutation occurs and the message "Unauthorized to
  delete this product!" is returned; an actor who is not logged in is redirected to the
  login page, with no mutation and no message.
\<close>

theorem delete_product_authorization:
  assumes "db_connected env"
      and "object_id_of_str env (clean_id product_id) = Some oid"
      and "find_one (by_id oid) (products db) = Some (i, product)"
  shows "(s_user session \<noteq> None
          \<and> (s_user_type session = Some ''admin'' \<or> p_owner product = s_user session)
          \<longrightarrow> store (delete_product env session product_id referrer db)
                = db\<lparr>products := delete_one (by_id oid) (products db)\<rparr>
            \<and> length (products (store (delete_product env session product_id referrer db))) + 1
                = length (products db)
            \<and> flashed (delete_product env session product_id referrer db)
                = [(Text ''Product deleted successfully!'', ''success'')])
       \<and> (s_user session \<noteq> None
          \<and> \<not> (s_user_type session = Some ''admin'' \<or> p_owner product = s_user session)
          \<longrightarrow> store (delete_product env session product_id referrer db) = db
            \<and> flashed (delete_product env session product_id referrer db)
                = [(Text ''Unauthorized to delete this product!'', ''error'')])
       \<and> (s_user session = None
          \<longrightarrow> store (delete_product env session product_id referrer db) = db
            \<and> flashed (delete_product env session product_id referrer db) = []
            \<and> response (delete_product env session product_id referrer db) = Redirect ''/login'')"
  using assms length_delete_one [OF assms(3)]
  by (simp add: delete_product_def ensure_db_connection_def)

theorem delete_product_authorization_witness:
  "find_one (by_id 1) (products rice_db) = Some (1, snd (hd (products rice_db)))
   \<and> p_owner (snd (hd (products rice_db))) = s_user farmer_session
   \<and> products (store (delete_product demo_env farmer_session first_id None rice_db)) = []
   \<and> flashed (delete_product demo_env farmer_session first_id None rice_db)
      = [(Text ''Product deleted successfully!'', ''success'')]
   \<and> store (delete_product demo_env admin_session first_id None rice_db)
      = rice_db\<lparr>products := delete_one (by_id 1) (products rice_db)\<rparr>
   \<and> store (delete_product demo_env citizen_session first_id None rice_db) = rice_db
   \<and> flashed (delete_product demo_env citizen_session first_id None rice_db)
      = [(Text ''Unauthorized to delete this product!'', ''error'')]
   \<and> store (delete_product demo_env anonymous_session first_id None rice_db) = rice_db
   \<and> response (delete_product demo_env anonymous_session first_id None rice_db)
      = Redirect ''/login''"
proof -
  have h1: "db_connected demo_env"
    by (simp add: demo_env_def)
  have h2: "object_id_of_str demo_env (clean_id first_id) = Some 1"
    by code_simp
  have h3: "find_one (by_id 1) (products rice_db) = Some (1, snd (hd (products rice_db)))"
    by code_simp
  have owner: "p_owner (snd (hd (products rice_db))) = s_user farmer_session"
    by code_simp
  have farmer: "s_user farmer_session \<noteq> None"
    by (simp add: farmer_session_def)
  have admin: "s_user admin_session \<noteq> None \<and> s_user_type admin_session = Some ''admin''"
    by (simp add: admin_session_def)
  have citizen: "s_user citizen_session \<noteq> None
                 \<and> \<not> (s_user_type citizen_session = Some ''admin''
                        \<or> p_owner (snd (hd (products rice_db))) = s_user citizen_session)"
    by code_simp
  have anonymous: "s_user anonymous_session = None"
    by (simp add: anonymous_session_def)
  have emptied: "delete_one (by_id 1) (products rice_db) = []"
    by code_simp
  from delete_product_authorization [OF h1 h2 h3, of farmer_session None] owner farmer emptied
  have a: "products (store (delete_product demo_env farmer_session first_id None rice_db)) = []
           \<and> flashed (delete_product demo_env farmer_session first_id None rice_db)
             = [(Text ''Product deleted successfully!'', ''success'')]"
    by simp
  from delete_product_authorization [OF h1 h2 h3, of admin_session None] admin
  have b: "store (delete_product demo_env admin_session first_id None rice_db)
           = rice_db\<lparr>products := delete_one (by_id 1) (products rice_db)\<rparr>"
    by blast
  from delete_product_authorization [OF h1 h2 h3, of citizen_session None] citizen
  have c: "store (delete_product demo_env citizen_session first_id None rice_db) = rice_db
           \<and> flashed (delete_product demo_env citizen_session first_id None rice_db)
             = [(Text ''Unauthorized to delete this product!'', ''error'')]"
    by blast
  from delete_product_authorization [OF h1 h2 h3, of anonymous_session None] anonymous
  have d: "store (delete_product demo_env anonymous_session first_id None rice_db) = rice_db
           \<and> response (delete_product demo_env anonymous_session first_id None rice_db)
             = Redirect ''/login''"
    by blast
  from a b c d h3 owner show ?thesis
    by blast
qed

text \<open>
  The claim as written fails for an actor who is not logged in: the product stays, but
  the answer is a bare redirect to the login page, with no message of any kind.
\<close>

theorem delete_product_anonymous_counterexample:
  "s_user anonymous_session = None
   \<and> s_user_type anonymous_session = None
   \<and> object_id_of_str demo_env (clean_id first_id) = Some 1
   \<and> find_one (by_id 1) (products rice_db) = Some (1, snd (hd (products rice_db)))
   \<and> p_owner (snd (hd (products rice_db))) = Some ''ravi@example.com''
   \<and> delete_product demo_env anonymous_session first_id None rice_db
      = \<lparr>response = Redirect ''/login'', flashed = [], store = rice_db, gateway_calls = []\<rparr>"
  by code_simp

section \<open>Claims on the pricing heuristic\<close>

text \<open>
  C2 (as amended). For every base price and quality score \<open>q\<close>,
  \<open>compute_adjusted_price\<close> returns \<open>round(base * (1 + 0.05 + bonus), 2)\<close> in float
  arithmetic, where the bonus is 0.05 if \<open>q > 0.8\<close>, 0.02 if \<open>q > 0.5\<close> and 0
  otherwise: when the base price and the result are finite, the result is the float
  nearest to a whole number of hundredths, and it differs from the exact
  \<open>base * (1.05 + bonus)\<close> by at most \<open>0.005 + (\<bar>base\<bar> + 1) / 2 ^ 50\<close>. For a fixed
  base price that is not negative, the result is monotonic non-decreasing in \<open>q\<close>.
\<close>

theorem compute_adjusted_price_rounded_monotone:
  "compute_adjusted_price base q
     = py_round2 (fmul base (fl (105/100 + quality_bonus q)))
   \<and> (base = Finite b \<and> compute_adjusted_price base q = Finite r
      \<longrightarrow> (\<exists>k::int. r = round_to_double (of_int k / 100))
        \<and> \<bar>r - b * (105/100 + quality_bonus q)\<bar> \<le> 1/200 + (\<bar>b\<bar> + 1) / 2 ^ 50)
   \<and> (fle (Finite 0) base \<and> fle q1 q2
      \<longrightarrow> fle (compute_adjusted_price base q1) (compute_adjusted_price base q2))"
proof (intro conjI impI)
  show "compute_adjusted_price base q
          = py_round2 (fmul base (fl (105/100 + quality_bonus q)))"
    by (simp only: compute_adjusted_price_factor price_factor_nearest)
next
  assume "fle (Finite 0) base \<and> fle q1 q2"
  then have base: "fle (Finite 0) base" and q: "fle q1 q2" by simp_all
  from q have c: "price_factor q1 \<le> price_factor q2" by (rule price_factor_mono)
  show "fle (compute_adjusted_price base q1) (compute_adjusted_price base q2)"
    unfolding compute_adjusted_price_factor
    using fmul_factor_mono [OF base price_factor_bounds(1) c]
    by (rule py_round2_mono)
next
  assume h: "base = Finite b \<and> compute_adjusted_price base q = Finite r"
  define c where "c = price_factor q"
  define s where "s = 105/100 + quality_bonus q"
  define x where "x = round_to_double (b * c)"
  define y where "y = (of_int (round_half_even (x * 100)) :: rat) / 100"
  from h have "base = Finite b" "compute_adjusted_price base q = Finite r"
    by blast+
  then have run: "py_round2 (fl (b * c)) = Finite r"
    by (simp add: compute_adjusted_price_factor c_def)
  then have flx: "fl (b * c) = Finite x"
    by (auto simp add: fl_def Let_def x_def split: if_splits)
  with run have r: "r = round_to_double y"
    by (auto simp add: fl_def Let_def y_def split: if_splits)
  then show "\<exists>k::int. r = round_to_double (of_int k / 100)"
    unfolding y_def by blast
  have eta: "(2::rat) powi (- 1075) \<le> 1 / 2 ^ 54"
  proof -
    have "(2::rat) powi (- 1075) \<le> 2 powi (- 54)" by (rule two_powi_mono) simp
    also have "\<dots> = 1 / 2 ^ 54" by (simp add: power_int_minus_divide)
    finally show ?thesis .
  qed
  have c: "0 < c" "c \<le> 2" "\<bar>c - s\<bar> \<le> 1 / 2 ^ 52"
    unfolding c_def s_def by (rule price_factor_bounds)+
  have bc: "\<bar>b * c\<bar> \<le> 2 * \<bar>b\<bar>"
  proof -
    have "\<bar>b * c\<bar> = c * \<bar>b\<bar>"
      using c(1) by (simp add: abs_mult)
    also have "\<dots> \<le> 2 * \<bar>b\<bar>"
      using c(2) by (intro mult_right_mono) simp_all
    finally show ?thesis .
  qed
  have e1: "\<bar>x - b * c\<bar> \<le> \<bar>b * c\<bar> / 2 ^ 53 + 2 powi (- 1075)"
    unfolding x_def by (rule round_to_double_error)
  have e2: "\<bar>y - x\<bar> \<le> 1 / 200"
  proof -
    have "\<bar>of_int (round_half_even (x * 100)) - x * 100\<bar> \<le> 1 / 2"
      by (rule round_half_even_error)
    moreover have "of_int (round_half_even (x * 100)) = 100 * y"
      by (simp add: y_def)
    ultimately have "\<bar>100 * y - x * 100\<bar> \<le> 1 / 2" by simp
    then show ?thesis by linarith
  qed
  have e3: "\<bar>r - y\<bar> \<le> \<bar>y\<bar> / 2 ^ 53 + 2 powi (- 1075)"
    unfolding r by (rule round_to_double_error)
  have e4: "\<bar>b * c - b * s\<bar> \<le> \<bar>b\<bar> / 2 ^ 52"
  proof -
    have "\<bar>b * c - b * s\<bar> = \<bar>b\<bar> * \<bar>c - s\<bar>"
      by (simp add: abs_mult right_diff_distrib [symmetric])
    also have "\<dots> \<le> \<bar>b\<bar> * (1 / 2 ^ 52)"
      using c(3) by (intro mult_left_mono) simp_all
    finally show ?thesis by simp
  qed
  have x: "\<bar>x\<bar> \<le> 3 * \<bar>b\<bar> + 1 / 2"
  proof -
    have "\<bar>b * c\<bar> / 2 ^ 53 \<le> \<bar>b * c\<bar>"
      by (simp add: divide_le_eq)
    with e1 eta bc show ?thesis by (simp add: abs_le_iff) linarith
  qed
  have y: "\<bar>y\<bar> \<le> 3 * \<bar>b\<bar> + 1"
    using x e2 by linarith
  have "\<bar>y\<bar> / 2 ^ 53 \<le> (3 * \<bar>b\<bar> + 1) / 2 ^ 53"
    using y by (simp add: divide_right_mono)
  moreover have "\<bar>b * c\<bar> / 2 ^ 53 \<le> 2 * \<bar>b\<bar> / 2 ^ 53"
    using bc by (simp add: divide_right_mono)
  moreover have "\<bar>r - b * s\<bar> \<le> \<bar>r - y\<bar> + \<bar>y - x\<bar> + \<bar>x - b * c\<bar> + \<bar>b * c - b * s\<bar>"
    by linarith
  moreover have "(3 * \<bar>b\<bar> + 1) / 2 ^ 53 + 2 * \<bar>b\<bar> / 2 ^ 53 + \<bar>b\<bar> / 2 ^ 52 + 2 * (1 / 2 ^ 54)
                 \<le> (\<bar>b\<bar> + 1) / 2 ^ 50"
    by (simp add: field_simps)
  ultimately show "\<bar>r - b * (105/100 + quality_bonus q)\<bar> \<le> 1/200 + (\<bar>b\<bar> + 1) / 2 ^ 50"
    unfolding s_def [symmetric] using e1 e2 e3 e4 eta by linarith
qed

theorem compute_adjusted_price_rounded_monotone_witness:
  "compute_adjusted_price (Finite (1/2)) (Finite 0) = fl (53/100)
   \<and> compute_adjusted_price (Finite (1/2)) (Finite 0)
       = py_round2 (fmul (Finite (1/2)) (fl (105/100 + quality_bonus (Finite 0))))
   \<and> compute_adjusted_price (Finite (1/2)) (Finite 0)
       = Finite (2386907802506363 / 4503599627370496)
   \<and> (1/2) * (105/100 + quality_bonus (Finite 0)) = 525/1000
   \<and> \<bar>2386907802506363 / 4503599627370496 - (1/2) * (105/100 + quality_bonus (Finite 0))\<bar>
       \<le> 1/200 + (\<bar>1/2\<bar> + 1) / 2 ^ 50
   \<and> fle (Finite 0) (Finite (1/2)) \<and> fle (fl (4/10)) (fl (85/100))
   \<and> compute_adjusted_price (Finite (1/2)) (fl (4/10)) = fl (53/100)
   \<and> compute_adjusted_price (Finite (1/2)) (fl (85/100)) = fl (55/100)
   \<and> fle (compute_adjusted_price (Finite (1/2)) (fl (4/10)))
           (compute_adjusted_price (Finite (1/2)) (fl (85/100)))"
proof -
  have v: "compute_adjusted_price (Finite (1/2)) (Finite 0)
             = Finite (2386907802506363 / 4503599627370496)"
    by code_simp
  have w: "compute_adjusted_price (Finite (1/2)) (Finite 0) = fl (53/100)
           \<and> compute_adjusted_price (Finite (1/2)) (fl (4/10)) = fl (53/100)
           \<and> compute_adjusted_price (Finite (1/2)) (fl (85/100)) = fl (55/100)"
    by code_simp
  have s: "(1/2) * (105/100 + quality_bonus (Finite 0)) = 525/1000"
    by code_simp
  have h: "fle (Finite 0) (Finite (1/2)) \<and> fle (fl (4/10)) (fl (85/100))"
    by code_simp
  from compute_adjusted_price_rounded_monotone
         [where base = "Finite (1/2)" and b = "1/2" and q = "Finite 0"
            and r = "2386907802506363 / 4503599627370496", THEN conjunct2, THEN conjunct1] v
  have e: "\<bar>2386907802506363 / 4503599627370496
             - (1/2) * (105/100 + quality_bonus (Finite 0))\<bar>
           \<le> 1/200 + (\<bar>1/2\<bar> + 1) / 2 ^ 50"
    by blast
  from compute_adjusted_price_rounded_monotone
         [where base = "Finite (1/2)" and ?q1.0 = "fl (4/10)" and ?q2.0 = "fl (85/100)",
          THEN conjunct2, THEN conjunct2] h
  have m: "fle (compute_adjusted_price (Finite (1/2)) (fl (4/10)))
               (compute_adjusted_price (Finite (1/2)) (fl (85/100)))"
    by blast
  from compute_adjusted_price_rounded_monotone
         [where base = "Finite (1/2)" and q = "Finite 0", THEN conjunct1]
  have f: "compute_adjusted_price (Finite (1/2)) (Finite 0)
           = py_round2 (fmul (Finite (1/2)) (fl (105/100 + quality_bonus (Finite 0))))" .
  from v w s h e m f show ?thesis by blast
qed

text \<open>
  The claim as written fails in its value and in its monotonicity. The price 0.001 at
  score 0 gives 0.0 and the price 0.5 gives 0.53, neither of them the product of the
  price and 1.05 (the result is rounded to two decimals); and for the base price -100
  the score 0.9 gives -110.0, below the -105.0 that the score 0.4 gives.
\<close>

theorem compute_adjusted_price_counterexample:
  "compute_adjusted_price (fl (1/1000)) (Finite 0) = Finite 0
   \<and> fmul (fl (1/1000)) (fl (105/100)) \<noteq> Finite 0
   \<and> compute_adjusted_price (Finite (1/2)) (Finite 0) = fl (53/100)
   \<and> fmul (Finite (1/2)) (fl (105/100)) \<noteq> fl (53/100)
   \<and> fle (fl (4/10)) (fl (9/10))
   \<and> compute_adjusted_price (Finite (- 100)) (fl (4/10)) = Finite (- 105)
   \<and> compute_adjusted_price (Finite (- 100)) (fl (9/10)) = Finite (- 110)
   \<and> \<not> fle (compute_adjusted_price (Finite (- 100)) (fl (4/10)))
             (compute_adjusted_price (Finite (- 100)) (fl (9/10)))"
  by code_simp





end
